theory Spec2Isabelle
  imports Complex_Main
begin

section \<open>Branch interpretation of uproot (\<^verbatim>\<open>uproot/interp/auto.py\<close>)\<close>

text \<open>
  The development embeds the function \<^verbatim>\<open>interpret(branch, swapbytes)\<close> and its two
  helpers \<^verbatim>\<open>_ftype2dtype\<close> and \<^verbatim>\<open>_leaf2dtype\<close>. Python byte strings are character lists,
  Python integers are \<open>int\<close>, every \<^verbatim>\<open>raise\<close> is a value of the type \<open>exn\<close>, and the
  objects the function only builds (\<^verbatim>\<open>asdtype\<close>, \<^verbatim>\<open>asjagged\<close>, \<^verbatim>\<open>asobj\<close>, ...) are
  constructors that record the arguments of the call. The calls that can raise on their
  arguments (\<^verbatim>\<open>numpy.dtype\<close> on a shape or a list of fields, \<^verbatim>\<open>decode\<close>, the constructor
  of \<^verbatim>\<open>asdouble32\<close>) raise in the model as well.
\<close>

subsection \<open>The title patterns\<close>

text \<open>
  \<^verbatim>\<open>interpret._titlehasdims = re.compile(br"^([^\[\]]+)(\[[^\[\]]+\])+")\<close> is used with
  \<^verbatim>\<open>match\<close>: the title starts with a non-empty run of characters other than the two
  brackets, then an opening bracket, a non-empty run of such characters and a closing
  bracket. The first run is greedy and must stop in front of an opening bracket, so it is
  the longest bracket-free prefix; further groups do not change whether there is a match.
\<close>

definition not_bracket :: "char \<Rightarrow> bool" where
  "not_bracket ch \<longleftrightarrow> ch \<noteq> CHR ''['' \<and> ch \<noteq> CHR '']''"

definition bracket_group :: "string \<Rightarrow> bool" where
  "bracket_group s \<longleftrightarrow>
     (case s of
        [] \<Rightarrow> False
      | ch # r \<Rightarrow> ch = CHR ''['' \<and> takeWhile not_bracket r \<noteq> [] \<and>
          (case dropWhile not_bracket r of [] \<Rightarrow> False | e # _ \<Rightarrow> e = CHR '']''))"

definition titlehasdims :: "string \<Rightarrow> bool" where
  "titlehasdims t \<longleftrightarrow>
     takeWhile not_bracket t \<noteq> [] \<and> bracket_group (dropWhile not_bracket t)"

text \<open>
  \<^verbatim>\<open>interpret._itemdimpattern = re.compile(br"\[([1-9][0-9]*)\]")\<close> is used with
  \<^verbatim>\<open>re.findall\<close>, which scans from the left, collects the group of every match and goes on
  behind the match. At an opening bracket the digits are taken greedily; the match needs a
  first digit other than zero and a closing bracket right behind the digits.
\<close>

definition is_digit :: "char \<Rightarrow> bool" where
  "is_digit ch \<longleftrightarrow> ch \<in> set ''0123456789''"

definition dim_numeral :: "string \<Rightarrow> bool" where
  "dim_numeral ds \<longleftrightarrow> ds \<noteq> [] \<and> list_all is_digit ds \<and> hd ds \<noteq> CHR ''0''"

definition closes :: "string \<Rightarrow> bool" where
  "closes r \<longleftrightarrow> (case r of [] \<Rightarrow> False | e # _ \<Rightarrow> e = CHR '']'')"

function itemdims :: "string \<Rightarrow> string list" where
  "itemdims [] = []"
| "itemdims (ch # cs) =
     (if ch = CHR ''['' \<and> dim_numeral (takeWhile is_digit cs) \<and> closes (dropWhile is_digit cs)
      then takeWhile is_digit cs # itemdims (tl (dropWhile is_digit cs))
      else itemdims cs)"
  by pat_completeness auto
termination
proof (relation "measure length")
  show "wf (measure length)" by simp
next
  fix ch :: char and cs :: string
  have "length (tl (dropWhile is_digit cs)) \<le> length cs"
    using length_dropWhile_le [of is_digit cs] by simp
  then show "(tl (dropWhile is_digit cs), ch # cs) \<in> measure length" by simp
next
  fix ch :: char and cs :: string
  show "(cs, ch # cs) \<in> measure length" by simp
qed

text \<open>Python's \<^verbatim>\<open>int(x)\<close> on a string of decimal digits.\<close>

definition digit_value :: "char \<Rightarrow> int" where
  "digit_value ch = int (of_char ch) - 48"

definition int_of_digits :: "string \<Rightarrow> int" where
  "int_of_digits ds = foldl (\<lambda>a ch. 10 * a + digit_value ch) 0 ds"

text \<open>
  Lines 115 to 119: \<^verbatim>\<open>dims\<close> of the only leaf's title; the empty tuple when the title
  does not match.
\<close>

definition title_dims :: "string \<Rightarrow> int list" where
  "title_dims t = (if titlehasdims t then map int_of_digits (itemdims t) else [])"

subsection \<open>numpy dtypes\<close>

text \<open>
  numpy is an external library. A dtype is kept as the call that builds it: a scalar type
  with its kind, item size and byte order, \<^verbatim>\<open>numpy.dtype((base, shape))\<close>, or a list of
  named fields. The byte order is symbolic: \<open>Big\<close> for \<^verbatim>\<open>">"\<close>, \<open>Native\<close> for
  \<^verbatim>\<open>"="\<close>, and \<open>NotApplicable\<close> for the one-byte types, which \<^verbatim>\<open>newbyteorder\<close> leaves
  alone.
\<close>

datatype kind = KBool | KInt | KUInt | KFloat

datatype byteorder = Big | Native | NotApplicable

datatype dtype =
    Prim kind nat byteorder
  | Shaped dtype "int list"
  | Fields "(string \<times> dtype) list"

fun newbyteorder :: "byteorder \<Rightarrow> dtype \<Rightarrow> dtype" where
  "newbyteorder bo (Prim k n NotApplicable) = Prim k n NotApplicable"
| "newbyteorder bo (Prim k n _) = Prim k n bo"
| "newbyteorder bo (Shaped d sh) = Shaped (newbyteorder bo d) sh"
| "newbyteorder bo (Fields fs) = Fields (map (\<lambda>(nm, d). (nm, newbyteorder bo d)) fs)"

fun itemsize :: "dtype \<Rightarrow> int" where
  "itemsize (Prim k n bo) = int n"
| "itemsize (Shaped d sh) = itemsize d * foldl (*) 1 sh"
| "itemsize (Fields fs) = sum_list (map (\<lambda>(nm, d). itemsize d) fs)"

subsection \<open>What the module takes from outside\<close>

text \<open>
  \<^verbatim>\<open>uproot.const\<close> is not among the sources: its type codes are a parameter.
\<close>

record const =
  kBool :: int
  kChar :: int
  kUChar :: int
  kShort :: int
  kUShort :: int
  kInt :: int
  kBits :: int
  kUInt :: int
  kCounter :: int
  kLong :: int
  kULong :: int
  kLong64 :: int
  kULong64 :: int
  kFloat :: int
  kDouble :: int
  kDouble32 :: int
  kCharStar :: int
  kOffsetP :: int
  kSTLvector :: int

text \<open>
  The nodes of Python's \<^verbatim>\<open>ast\<close> module that \<^verbatim>\<open>transform\<close> tells apart; \<open>'f\<close> is the type
  of Python floats, which stays abstract.
\<close>

datatype expr_context = Load | Store | Del

datatype operator = Add | Sub | Mult | Div | Mod | Pow | FloorDiv | OtherOperator

datatype unaryop = Invert | NotOp | UAdd | USub

datatype 'f pynum = PyInt int | PyFloat 'f | PyComplex

datatype 'f node =
    Name string expr_context
  | Num "'f pynum"
  | BinOp "'f node" operator "'f node"
  | UnaryOp unaryop "'f node"
  | List "'f node list" expr_context
  | Call "'f node" "'f node list"
  | OtherNode

text \<open>A value of the evaluated range expression: a float, an untouched literal, or a list.\<close>

datatype 'f pyval = VFloat 'f | VRaw "'f pynum" | VList "'f pyval list"

text \<open>
  What the function calls and the sources do not hold, as parameters:
  \<^item> \<open>long64\<close>: whether \<^verbatim>\<open>numpy.dtype(numpy.long)\<close>, the C \<^verbatim>\<open>long\<close> of the platform, has
    eight bytes; it has four otherwise;
  \<^item> \<open>utf8_decode\<close>: \<^verbatim>\<open>bytes.decode("utf-8")\<close>, \<open>None\<close> when it raises;
  \<^item> \<open>numpy_shape_ok\<close>: whether \<^verbatim>\<open>numpy.dtype((base, shape))\<close> accepts a non-empty shape
    (numpy refuses negative and oversized dimensions with \<^verbatim>\<open>ValueError\<close>);
  \<^item> \<open>numpy_fields_ok\<close>: whether \<^verbatim>\<open>numpy.dtype\<close> accepts a list of named fields (it
    refuses a repeated name with \<^verbatim>\<open>ValueError\<close>);
  \<^item> \<open>ast_parse\<close>: the expression \<^verbatim>\<open>ast.parse(text).body[0].value\<close>, \<open>None\<close> when any
    part of it raises;
  \<^item> float arithmetic, \<open>None\<close> when an operation raises, as a division by zero does;
  \<^item> \<open>asdouble32_ok\<close>: whether the constructor of \<^verbatim>\<open>asdouble32\<close>, a class of
    \<^verbatim>\<open>uproot.interp.numerical\<close>, accepts its five arguments; it raises otherwise.
\<close>

record 'f python =
  long64 :: bool
  utf8_decode :: "string \<Rightarrow> string option"
  numpy_shape_ok :: "dtype \<Rightarrow> int list \<Rightarrow> bool"
  numpy_fields_ok :: "(string \<times> dtype) list \<Rightarrow> bool"
  ast_parse :: "string \<Rightarrow> 'f node option"
  float_of_int :: "int \<Rightarrow> 'f option"
  float_pi :: 'f
  float_neg :: "'f \<Rightarrow> 'f"
  float_binop :: "operator \<Rightarrow> 'f \<Rightarrow> 'f \<Rightarrow> 'f option"
  asdouble32_ok :: "'f pyval \<Rightarrow> 'f pyval \<Rightarrow> 'f pyval \<Rightarrow> int list \<Rightarrow> int list \<Rightarrow> bool"

definition long_itemsize :: "'f python \<Rightarrow> nat" where
  "long_itemsize py = (if long64 py then 8 else 4)"

subsection \<open>Exceptions and the outcome of a block of statements\<close>

datatype exn =
    NotNumerical | AttributeError | NameError | UnboundLocalError | ZeroDivisionError
  | ValueError | UnicodeDecodeError

text \<open>
  A block of statements of the function body computes a value and goes on (\<open>Val\<close>),
  returns from the function (\<open>Ret\<close>), or raises (\<open>Exc\<close>).
\<close>

datatype ('v, 'r) step = Val 'v | Ret 'r | Exc exn

fun first_of :: "(unit, 'r) step list \<Rightarrow> (unit, 'r) step" where
  "first_of [] = Val ()"
| "first_of (s # ss) = (case s of Val _ \<Rightarrow> first_of ss | Ret r \<Rightarrow> Ret r | Exc e \<Rightarrow> Exc e)"

text \<open>
  \<^verbatim>\<open>numpy.dtype((base, shape))\<close>: the empty shape gives the base type back and is always
  accepted.
\<close>

definition shaped :: "'f python \<Rightarrow> dtype \<Rightarrow> int list \<Rightarrow> exn + dtype" where
  "shaped py base shape =
     (if shape = [] \<or> numpy_shape_ok py base shape then Inr (Shaped base shape)
      else Inl ValueError)"

text \<open>\<^verbatim>\<open>numpy.dtype\<close> on a list of named fields.\<close>

definition fields_dtype :: "'f python \<Rightarrow> (string \<times> dtype) list \<Rightarrow> exn + dtype" where
  "fields_dtype py fs = (if numpy_fields_ok py fs then Inr (Fields fs) else Inl ValueError)"

text \<open>\<^verbatim>\<open>bytes.decode("ascii")\<close>, which raises on a byte above 127.\<close>

definition ascii_decode :: "string \<Rightarrow> string option" where
  "ascii_decode s = (if list_all (\<lambda>ch. (of_char ch :: nat) < 128) s then Some s else None)"

subsection \<open>\<^verbatim>\<open>_ftype2dtype\<close> and \<^verbatim>\<open>_leaf2dtype\<close>\<close>

definition ftype2dtype :: "const \<Rightarrow> 'f python \<Rightarrow> int \<Rightarrow> exn + dtype" where
  "ftype2dtype c py ft =
     (if ft = kBool c then Inr (Prim KBool 1 NotApplicable)
      else if ft = kChar c then Inr (Prim KInt 1 NotApplicable)
      else if ft = kUChar c then Inr (Prim KUInt 1 NotApplicable)
      else if ft = kShort c then Inr (Prim KInt 2 Big)
      else if ft = kUShort c then Inr (Prim KUInt 2 Big)
      else if ft = kInt c then Inr (Prim KInt 4 Big)
      else if ft = kBits c \<or> ft = kUInt c \<or> ft = kCounter c then Inr (Prim KUInt 4 Big)
      else if ft = kLong c then Inr (newbyteorder Big (Prim KInt (long_itemsize py) Native))
      else if ft = kULong c then Inr (Prim KUInt (long_itemsize py) Big)
      else if ft = kLong64 c then Inr (Prim KInt 8 Big)
      else if ft = kULong64 c then Inr (Prim KUInt 8 Big)
      else if ft = kFloat c then Inr (Prim KFloat 4 Big)
      else if ft = kDouble c then Inr (Prim KFloat 8 Big)
      else Inl NotNumerical)"

datatype leafclass =
  TLeafO | TLeafB | TLeafS | TLeafI | TLeafL | TLeafF | TLeafD | TLeafElement | TLeafC | TLeafOther

text \<open>
  A leaf. \<open>leaf_id\<close> stands for the identity of the Python object, which line 199 compares
  with \<^verbatim>\<open>is\<close>; \<open>fLeafCount\<close> holds the identity of the counter leaf. \<open>fType\<close> is read
  only on a \<^verbatim>\<open>TLeafElement\<close>.
\<close>

record leaf =
  leaf_id :: nat
  leaf_class :: leafclass
  fName :: string
  fTitle :: string
  fIsUnsigned :: bool
  fType :: int
  fLeafCount :: "nat option"

definition leaf2dtype :: "const \<Rightarrow> 'f python \<Rightarrow> leaf \<Rightarrow> exn + dtype" where
  "leaf2dtype c py lf =
     (case leaf_class lf of
        TLeafO \<Rightarrow> Inr (Prim KBool 1 NotApplicable)
      | TLeafB \<Rightarrow>
          (if fIsUnsigned lf then Inr (Prim KUInt 1 NotApplicable) else Inr (Prim KInt 1 NotApplicable))
      | TLeafS \<Rightarrow> (if fIsUnsigned lf then Inr (Prim KUInt 2 Native) else Inr (Prim KInt 2 Native))
      | TLeafI \<Rightarrow> (if fIsUnsigned lf then Inr (Prim KUInt 4 Native) else Inr (Prim KInt 4 Native))
      | TLeafL \<Rightarrow> (if fIsUnsigned lf then Inr (Prim KUInt 8 Native) else Inr (Prim KInt 8 Native))
      | TLeafF \<Rightarrow> Inr (Prim KFloat 4 Native)
      | TLeafD \<Rightarrow> Inr (Prim KFloat 8 Native)
      | TLeafElement \<Rightarrow> ftype2dtype c py (fType lf)
      | TLeafC \<Rightarrow> Inl NotNumerical
      | TLeafOther \<Rightarrow> Inl NotNumerical)"

subsection \<open>The decode plans\<close>

text \<open>
  The classes of the registry: \<open>recarray_dtype\<close> is the result of \<^verbatim>\<open>_recarray_dtype()\<close>
  (\<open>None\<close> when the call raises \<^verbatim>\<open>AttributeError\<close> or \<^verbatim>\<open>ValueError\<close>), \<open>methods\<close> is
  \<^verbatim>\<open>_methods\<close> and \<open>arraymethods\<close> is \<^verbatim>\<open>_methods._arraymethods\<close> (\<open>None\<close> for Python's
  \<^verbatim>\<open>None\<close>). A method set is known by its tag.
\<close>

record methodset =
  methods_tag :: string
  arraymethods :: "string option"

record pyclass =
  class_name :: string
  recarray_dtype :: "dtype option"
  methods :: "methodset option"

text \<open>
  The interpretation objects, as the calls that build them. An optional argument that the
  call leaves out is \<open>None\<close>. \<^verbatim>\<open>asobj\<close> also takes the branch's context, which is not
  recorded.
\<close>

datatype 'f interp =
    asdtype dtype "dtype option"
  | asdouble32 "'f pyval" "'f pyval" "'f pyval" "int list" "int list"
  | asjagged "'f interp" "nat option"
  | asobj "'f cls" nat
  | asstring nat
  | asstlbitset int
  | aswrapped "'f interp" string
and 'f cls =
    Class pyclass
  | STLString
  | STLVector "'f cls"
  | Content "'f interp"

subsection \<open>The range expression of a compressed float (lines 135 to 170)\<close>

text \<open>
  \<^verbatim>\<open>transform\<close> builds a new tree from the nodes it accepts and raises on every other
  node (\<open>None\<close>: the only caller catches every exception). The trees it builds have their
  own type: a float literal, one of the four binary operations, a unary minus, and a list
  of two elements or of two elements and an untouched numeric literal.
\<close>

datatype 'f tnode =
    TNum 'f
  | TBinOp "'f tnode" operator "'f tnode"
  | TUSub "'f tnode"
  | TList2 "'f tnode" "'f tnode"
  | TList3 "'f tnode" "'f tnode" "'f pynum"

definition to_float :: "'f python \<Rightarrow> 'f pynum \<Rightarrow> 'f option" where
  "to_float py n = (case n of PyInt i \<Rightarrow> float_of_int py i | PyFloat x \<Rightarrow> Some x | PyComplex \<Rightarrow> None)"

fun transform :: "'f python \<Rightarrow> 'f node \<Rightarrow> 'f tnode option" where
  "transform py (Name ident ctx) =
     (if ctx = Load \<and> ident = ''pi'' then Some (TNum (float_pi py)) else None)"
| "transform py (Num n) = map_option TNum (to_float py n)"
| "transform py (BinOp l op r) =
     (if op = Add \<or> op = Sub \<or> op = Mult \<or> op = Div
      then (case transform py l of
              None \<Rightarrow> None
            | Some l' \<Rightarrow> (case transform py r of None \<Rightarrow> None | Some r' \<Rightarrow> Some (TBinOp l' op r')))
      else None)"
| "transform py (UnaryOp op e) =
     (if op = USub then map_option TUSub (transform py e) else None)"
| "transform py (List [a, b] ctx) =
     (if ctx = Load
      then (case transform py a of
              None \<Rightarrow> None
            | Some a' \<Rightarrow> (case transform py b of None \<Rightarrow> None | Some b' \<Rightarrow> Some (TList2 a' b')))
      else None)"
| "transform py (List [a, b, Num n] ctx) =
     (if ctx = Load
      then (case transform py a of
              None \<Rightarrow> None
            | Some a' \<Rightarrow> (case transform py b of None \<Rightarrow> None | Some b' \<Rightarrow> Some (TList3 a' b' n)))
      else None)"
| "transform py (List es ctx) = None"
| "transform py (Call f args) = None"
| "transform py OtherNode = None"

text \<open>
  \<^verbatim>\<open>eval(compile(...))\<close> on such a tree. Two floats combine by float arithmetic, two lists
  by \<^verbatim>\<open>+\<close> only, anything else raises \<^verbatim>\<open>TypeError\<close>.
\<close>

fun eval_tnode :: "'f python \<Rightarrow> 'f tnode \<Rightarrow> 'f pyval option" where
  "eval_tnode py (TNum x) = Some (VFloat x)"
| "eval_tnode py (TBinOp l op r) =
     (case eval_tnode py l of
        None \<Rightarrow> None
      | Some u \<Rightarrow>
          (case eval_tnode py r of
             None \<Rightarrow> None
           | Some v \<Rightarrow>
               (case (u, v) of
                  (VFloat x, VFloat y) \<Rightarrow> map_option VFloat (float_binop py op x y)
                | (VList xs, VList ys) \<Rightarrow> (if op = Add then Some (VList (xs @ ys)) else None)
                | _ \<Rightarrow> None)))"
| "eval_tnode py (TUSub e) =
     (case eval_tnode py e of Some (VFloat x) \<Rightarrow> Some (VFloat (float_neg py x)) | _ \<Rightarrow> None)"
| "eval_tnode py (TList2 a b) =
     (case eval_tnode py a of
        None \<Rightarrow> None
      | Some u \<Rightarrow> (case eval_tnode py b of None \<Rightarrow> None | Some v \<Rightarrow> Some (VList [u, v])))"
| "eval_tnode py (TList3 a b n) =
     (case eval_tnode py a of
        None \<Rightarrow> None
      | Some u \<Rightarrow> (case eval_tnode py b of None \<Rightarrow> None | Some v \<Rightarrow> Some (VList [u, v, VRaw n])))"

text \<open>
  Line 157: the indices of the first opening and of the first closing bracket, and the
  slice \<^verbatim>\<open>fTitle[left : right + 1]\<close>, which is empty when the closing bracket comes first.
\<close>

definition index_of :: "char \<Rightarrow> string \<Rightarrow> nat option" where
  "index_of ch t = (if ch \<in> set t then Some (length (takeWhile (\<lambda>x. x \<noteq> ch) t)) else None)"

definition bracket_text :: "string \<Rightarrow> string option" where
  "bracket_text t =
     (case index_of (CHR ''['') t of
        None \<Rightarrow> None
      | Some left \<Rightarrow>
          (case index_of (CHR '']'') t of
             None \<Rightarrow> None
           | Some right \<Rightarrow> Some (take (right + 1 - left) (drop left t))))"

subsection \<open>Streamers and branches\<close>

text \<open>
  \<^verbatim>\<open>uproot.rootio\<close> is not among the sources. A streamer is its class and its attributes;
  an attribute that the function reads with \<^verbatim>\<open>getattr\<close> or \<^verbatim>\<open>hasattr\<close> may be missing
  (\<open>None\<close>), and reading a missing one directly raises \<^verbatim>\<open>AttributeError\<close>. Among the
  classes that \<^verbatim>\<open>isinstance\<close> tests none derives from another, so the test is equality of
  the class.
\<close>

datatype streamerclass =
    TStreamerInfo | TStreamerObject | TStreamerObjectPointer | TStreamerBasicType
  | TStreamerBasicPointer | TStreamerString | TStreamerSTL | TStreamerSTLstring | TStreamerOther

record streamer =
  streamer_class :: streamerclass
  st_fName :: string
  st_fTitle :: string
  st_fTypeName :: "string option"
  st_fType :: "int option"
  st_fSize :: "int option"
  st_fSTLtype :: "int option"
  st_fCtype :: "int option"

text \<open>
  \<^verbatim>\<open>branch._vecstreamer\<close>: \<open>vs_pyclass\<close> is its attribute \<^verbatim>\<open>pyclass\<close>, \<open>None\<close> when
  reading it raises \<^verbatim>\<open>AttributeError\<close>.
\<close>

record vecstreamer =
  vs_pyclass :: "pyclass option"
  vs_fName :: string

text \<open>
  A branch. Of a child branch only the leaves are read, so \<open>fBranches\<close> lists the leaves of
  each child; \<open>classes\<close> is \<^verbatim>\<open>branch._context.classes\<close>, whose keys are decoded names.
\<close>

record branch =
  fLeaves :: "leaf list"
  fBranches :: "leaf list list"
  fClassName :: string
  streamer_of :: "streamer option"
  vecstreamer_of :: "vecstreamer option"
  classes :: "string \<rightharpoonup> pyclass"

subsection \<open>The \<^verbatim>\<open>try\<close> block (lines 125 to 195)\<close>

definition strip_star :: "string \<Rightarrow> string" where
  "strip_star obj = (if obj \<noteq> [] \<and> last obj = CHR ''*'' then butlast obj else obj)"

text \<open>Lines 127 to 132.\<close>

definition try_objectpointer :: "'f python \<Rightarrow> branch \<Rightarrow> (unit, 'f interp option) step" where
  "try_objectpointer py b =
     (case streamer_of b of
        None \<Rightarrow> Val ()
      | Some s \<Rightarrow>
          (if streamer_class s = TStreamerObjectPointer
           then (case st_fTypeName s of
                   None \<Rightarrow> Exc AttributeError
                 | Some tn \<Rightarrow>
                     (case utf8_decode py tn of
                        None \<Rightarrow> Exc UnicodeDecodeError
                      | Some obj \<Rightarrow>
                          (case classes b (strip_star obj) of
                             Some cl \<Rightarrow> Ret (Some (asobj (Class cl) 0))
                           | None \<Rightarrow> Val ())))
           else Val ()))"

text \<open>Line 134.\<close>

definition double32_leaf :: "const \<Rightarrow> leaf \<Rightarrow> bool" where
  "double32_leaf c lf \<longleftrightarrow> leaf_class lf = TLeafElement \<and> fType lf = kDouble32 c"

text \<open>
  Lines 156 to 170. A branch without a streamer raises \<^verbatim>\<open>AttributeError\<close> at line 157,
  which is caught together with the \<^verbatim>\<open>ValueError\<close> of a missing bracket; the two calls of
  \<^verbatim>\<open>numpy.dtype\<close> at line 159 are in the handler, so what they raise leaves the function.
  Everything that raises in lines 162 to 168, the constructor of \<^verbatim>\<open>asdouble32\<close> too, ends
  in \<^verbatim>\<open>return None\<close>.
\<close>

definition compute_double32 ::
  "'f python \<Rightarrow> branch \<Rightarrow> int list \<Rightarrow> ('f interp, 'f interp option) step" where
  "compute_double32 py b dims =
     (case (case streamer_of b of None \<Rightarrow> None | Some s \<Rightarrow> bracket_text (st_fTitle s)) of
        None \<Rightarrow>
          (case shaped py (Prim KFloat 4 Big) dims of
             Inl e \<Rightarrow> Exc e
           | Inr fromdtype \<Rightarrow>
               (case shaped py (Prim KFloat 8 Native) dims of
                  Inl e \<Rightarrow> Exc e
                | Inr todtype \<Rightarrow> Val (asdtype fromdtype (Some todtype))))
      | Some txt \<Rightarrow>
          (case ast_parse py txt of
             None \<Rightarrow> Ret None
           | Some n \<Rightarrow>
               (case transform py n of
                  None \<Rightarrow> Ret None
                | Some t \<Rightarrow>
                    (case eval_tnode py t of
                       Some (VList [low, high]) \<Rightarrow>
                         (if asdouble32_ok py low high (VRaw (PyInt 32)) dims dims
                          then Val (asdouble32 low high (VRaw (PyInt 32)) dims dims)
                          else Ret None)
                     | Some (VList [low, high, numbits]) \<Rightarrow>
                         (if asdouble32_ok py low high numbits dims dims
                          then Val (asdouble32 low high numbits dims dims)
                          else Ret None)
                     | _ \<Rightarrow> Ret None))))"

text \<open>
  Lines 173 to 178. The two calls of \<^verbatim>\<open>numpy.dtype\<close> are outside every handler of
  \<^verbatim>\<open>ValueError\<close>.
\<close>

definition compute_numeric ::
  "const \<Rightarrow> 'f python \<Rightarrow> leaf \<Rightarrow> bool \<Rightarrow> int list \<Rightarrow> ('f interp, 'f interp option) step" where
  "compute_numeric c py lf swapbytes dims =
     (case leaf2dtype c py lf of
        Inl e \<Rightarrow> Exc e
      | Inr d \<Rightarrow>
          (let fromdtype = newbyteorder Big d in
           case shaped py fromdtype dims of
             Inl e \<Rightarrow> Exc e
           | Inr f \<Rightarrow>
               (case shaped py (if swapbytes then newbyteorder Native fromdtype else fromdtype)
                       dims of
                  Inl e \<Rightarrow> Exc e
                | Inr t \<Rightarrow> Val (asdtype f (Some t)))))"

text \<open>Lines 180 to 183.\<close>

definition count_wrapped :: "leaf \<Rightarrow> 'f interp \<Rightarrow> 'f interp" where
  "count_wrapped lf out = (if fLeafCount lf = None then out else asjagged out None)"

text \<open>Lines 126 to 183, for the only leaf \<open>lf\<close>.\<close>

definition try_single ::
  "const \<Rightarrow> 'f python \<Rightarrow> branch \<Rightarrow> bool \<Rightarrow> int list \<Rightarrow> leaf \<Rightarrow> (unit, 'f interp option) step" where
  "try_single c py b swapbytes dims lf =
     (case try_objectpointer py b of
        Ret r \<Rightarrow> Ret r
      | Exc e \<Rightarrow> Exc e
      | Val _ \<Rightarrow>
          (case (if double32_leaf c lf then compute_double32 py b dims
                 else compute_numeric c py lf swapbytes dims) of
             Ret r \<Rightarrow> Ret r
           | Exc e \<Rightarrow> Exc e
           | Val out \<Rightarrow> Ret (Some (count_wrapped lf out))))"

text \<open>
  Lines 186 and 188: the list comprehensions over the leaves, which stop at the first leaf
  whose name is not ASCII or that \<^verbatim>\<open>_leaf2dtype\<close> refuses.
\<close>

fun leaf_fields ::
  "const \<Rightarrow> 'f python \<Rightarrow> byteorder \<Rightarrow> leaf list \<Rightarrow> exn + (string \<times> dtype) list" where
  "leaf_fields c py bo [] = Inr []"
| "leaf_fields c py bo (lf # lfs) =
     (case ascii_decode (fName lf) of
        None \<Rightarrow> Inl UnicodeDecodeError
      | Some name \<Rightarrow>
          (case leaf2dtype c py lf of
             Inl e \<Rightarrow> Inl e
           | Inr d \<Rightarrow>
               (case leaf_fields c py bo lfs of
                  Inl e \<Rightarrow> Inl e
                | Inr fs \<Rightarrow> Inr ((name, newbyteorder bo d) # fs))))"

text \<open>Lines 186 and 188: the comprehension and \<^verbatim>\<open>numpy.dtype\<close> on its list.\<close>

definition leaves_dtype ::
  "const \<Rightarrow> 'f python \<Rightarrow> byteorder \<Rightarrow> leaf list \<Rightarrow> exn + dtype" where
  "leaves_dtype c py bo lfs =
     (case leaf_fields c py bo lfs of Inl e \<Rightarrow> Inl e | Inr fs \<Rightarrow> fields_dtype py fs)"

text \<open>Lines 185 to 195.\<close>

definition try_multi ::
  "const \<Rightarrow> 'f python \<Rightarrow> branch \<Rightarrow> bool \<Rightarrow> int list \<Rightarrow> (unit, 'f interp option) step" where
  "try_multi c py b swapbytes dims =
     (case leaves_dtype c py Big (fLeaves b) of
        Inl e \<Rightarrow> Exc e
      | Inr fromdtype \<Rightarrow>
          (case (if swapbytes then leaves_dtype c py Native (fLeaves b) else Inr fromdtype) of
             Inl e \<Rightarrow> Exc e
           | Inr todtype \<Rightarrow>
               (if list_all (\<lambda>lf. fLeafCount lf = None) (fLeaves b)
                then (case shaped py fromdtype dims of
                        Inl e \<Rightarrow> Exc e
                      | Inr f \<Rightarrow>
                          (case shaped py todtype dims of
                             Inl e \<Rightarrow> Exc e
                           | Inr t \<Rightarrow> Ret (Some (asdtype f (Some t)))))
                else Ret None)))"

definition interpret_try ::
  "const \<Rightarrow> 'f python \<Rightarrow> branch \<Rightarrow> bool \<Rightarrow> int list \<Rightarrow> (unit, 'f interp option) step" where
  "interpret_try c py b swapbytes dims =
     (case fLeaves b of
        [] \<Rightarrow> Val ()
      | [lf] \<Rightarrow> try_single c py b swapbytes dims lf
      | _ \<Rightarrow> try_multi c py b swapbytes dims)"

subsection \<open>The handler of \<^verbatim>\<open>_NotNumerical\<close> (lines 197 to 397)\<close>

text \<open>Line 199: the column counts every child.\<close>

definition counts_children :: "branch \<Rightarrow> leaf \<Rightarrow> bool" where
  "counts_children b lf \<longleftrightarrow>
     fBranches b \<noteq> [] \<and>
     list_all (\<lambda>ls. case ls of [x] \<Rightarrow> fLeafCount x = Some (leaf_id lf) | _ \<Rightarrow> False) (fBranches b)"

text \<open>Lines 199 and 200.\<close>

definition check_counter :: "branch \<Rightarrow> leaf \<Rightarrow> (unit, 'f interp option) step" where
  "check_counter b lf =
     (if counts_children b lf then Ret (Some (asdtype (Prim KInt 4 Big) None)) else Val ())"

text \<open>Lines 202 to 205.\<close>

definition check_object :: "'f python \<Rightarrow> branch \<Rightarrow> (unit, 'f interp option) step" where
  "check_object py b =
     (case streamer_of b of
        None \<Rightarrow> Val ()
      | Some s \<Rightarrow>
          (if streamer_class s = TStreamerObject
           then (case st_fTypeName s of
                   None \<Rightarrow> Exc AttributeError
                 | Some tn \<Rightarrow>
                     (case utf8_decode py tn of
                        None \<Rightarrow> Exc UnicodeDecodeError
                      | Some obj \<Rightarrow>
                          (case classes b obj of
                             Some cl \<Rightarrow> Ret (Some (asobj (Class cl) 0))
                           | None \<Rightarrow> Val ())))
           else Val ()))"

text \<open>Lines 207 to 210.\<close>

definition check_info :: "'f python \<Rightarrow> branch \<Rightarrow> (unit, 'f interp option) step" where
  "check_info py b =
     (case streamer_of b of
        None \<Rightarrow> Val ()
      | Some s \<Rightarrow>
          (if streamer_class s = TStreamerInfo
           then (case utf8_decode py (st_fName s) of
                   None \<Rightarrow> Exc UnicodeDecodeError
                 | Some obj \<Rightarrow>
                     (case classes b obj of
                        Some cl \<Rightarrow> Ret (Some (asobj (Class cl) 0))
                      | None \<Rightarrow> Val ()))
           else Val ()))"

text \<open>
  Lines 216 to 231. Python's \<^verbatim>\<open>divmod\<close> on integers rounds towards minus infinity, as
  \<open>div\<close> and \<open>mod\<close> on \<open>int\<close> do, and raises on a zero divisor. The two calls of
  \<^verbatim>\<open>numpy.dtype\<close> at line 231 are outside every handler of \<^verbatim>\<open>ValueError\<close>.
\<close>

definition check_basictype ::
  "const \<Rightarrow> 'f python \<Rightarrow> branch \<Rightarrow> bool \<Rightarrow> int list \<Rightarrow> (unit, 'f interp option) step" where
  "check_basictype c py b swapbytes dims =
     (case streamer_of b of
        None \<Rightarrow> Val ()
      | Some s \<Rightarrow>
          (if streamer_class s = TStreamerBasicType
           then (case st_fType s of
                   None \<Rightarrow> Exc AttributeError
                 | Some ft \<Rightarrow>
                     (case ftype2dtype c py ft of
                        Inl e \<Rightarrow> Val ()
                      | Inr fromdtype \<Rightarrow>
                          (let todtype = (if swapbytes then newbyteorder Native fromdtype
                                          else fromdtype)
                           in case st_fSize s of
                                None \<Rightarrow> Exc AttributeError
                              | Some fSize \<Rightarrow>
                                  (if itemsize fromdtype = 0 then Exc ZeroDivisionError
                                   else
                                     (let fromdims = fSize div itemsize fromdtype;
                                          remainder = fSize mod itemsize fromdtype
                                      in if remainder = 0
                                         then (case shaped py fromdtype [fromdims] of
                                                 Inl e \<Rightarrow> Exc e
                                               | Inr f \<Rightarrow>
                                                   (case shaped py todtype
                                                           (if foldl (*) 1 dims \<noteq> fromdims
                                                            then [fromdims] else dims) of
                                                      Inl e \<Rightarrow> Exc e
                                                    | Inr t \<Rightarrow> Ret (Some (asdtype f (Some t)))))
                                         else Val ())))))
           else Val ()))"

text \<open>Lines 233 to 245.\<close>

definition check_basicpointer ::
  "const \<Rightarrow> 'f python \<Rightarrow> branch \<Rightarrow> bool \<Rightarrow> leaf \<Rightarrow> (unit, 'f interp option) step" where
  "check_basicpointer c py b swapbytes lf =
     (case streamer_of b of
        None \<Rightarrow> Val ()
      | Some s \<Rightarrow>
          (if streamer_class s = TStreamerBasicPointer
           then (case st_fType s of
                   None \<Rightarrow> Exc AttributeError
                 | Some ft \<Rightarrow>
                     (if kOffsetP c < ft \<and> ft < kOffsetP c + 20
                      then (case ftype2dtype c py (ft - kOffsetP c) of
                              Inl e \<Rightarrow> Val ()
                            | Inr fromdtype \<Rightarrow>
                                (let todtype = (if swapbytes then newbyteorder Native fromdtype
                                                else fromdtype)
                                 in if fLeafCount lf \<noteq> None
                                    then Ret (Some (asjagged (asdtype fromdtype (Some todtype))
                                                      (Some 1)))
                                    else Val ()))
                      else Val ()))
           else Val ()))"

text \<open>Lines 247 to 254.\<close>

definition check_class ::
  "branch \<Rightarrow> streamerclass \<Rightarrow> 'f interp \<Rightarrow> (unit, 'f interp option) step" where
  "check_class b cls plan =
     (case streamer_of b of
        None \<Rightarrow> Val ()
      | Some s \<Rightarrow> (if streamer_class s = cls then Ret (Some plan) else Val ()))"

definition check_charstar :: "const \<Rightarrow> branch \<Rightarrow> (unit, 'f interp option) step" where
  "check_charstar c b =
     (case streamer_of b of
        None \<Rightarrow> Val ()
      | Some s \<Rightarrow> (if st_fType s = Some (kCharStar c) then Ret (Some (asstring 4)) else Val ()))"

text \<open>
  Lines 256 to 283. When \<^verbatim>\<open>pyclass\<close> is missing and the registry does not know the name,
  \<^verbatim>\<open>streamerClass\<close> is unbound at line 274. Line 283 reads the name \<^verbatim>\<open>streamerclass\<close>,
  which no scope binds.
\<close>

definition check_stlvector ::
  "const \<Rightarrow> 'f python \<Rightarrow> branch \<Rightarrow> bool \<Rightarrow> (unit, 'f interp option) step" where
  "check_stlvector c py b swapbytes =
     (case streamer_of b of
        None \<Rightarrow> Val ()
      | Some s \<Rightarrow>
          (if st_fSTLtype s = Some (kSTLvector c)
           then (case st_fCtype s of
                   None \<Rightarrow> Exc AttributeError
                 | Some ct \<Rightarrow>
                     (case ftype2dtype c py ct of
                        Inr fromdtype \<Rightarrow>
                          (if swapbytes
                           then Ret (Some (asjagged
                                  (asdtype fromdtype (Some (newbyteorder Native fromdtype)))
                                  (Some 10)))
                           else Ret (Some (asjagged (asdtype fromdtype (Some fromdtype)) (Some 10))))
                      | Inl e \<Rightarrow>
                          (case vecstreamer_of b of
                             None \<Rightarrow> Val ()
                           | Some vs \<Rightarrow>
                               (case (case vs_pyclass vs of
                                        Some cl \<Rightarrow> Inr (Some cl)
                                      | None \<Rightarrow>
                                          (case utf8_decode py (vs_fName vs) of
                                             None \<Rightarrow> Inl UnicodeDecodeError
                                           | Some obj \<Rightarrow> Inr (classes b obj))) of
                                  Inl err \<Rightarrow> Exc err
                                | Inr None \<Rightarrow> Exc UnboundLocalError
                                | Inr (Some streamerClass) \<Rightarrow>
                                    (case recarray_dtype streamerClass of
                                       None \<Rightarrow> Ret (Some (asobj (STLVector (Class streamerClass)) 6))
                                     | Some recarray \<Rightarrow>
                                         (case methods streamerClass of
                                            None \<Rightarrow>
                                              Ret (Some (asjagged (asdtype recarray None) (Some 10)))
                                          | Some m \<Rightarrow>
                                              (case arraymethods m of
                                                 None \<Rightarrow>
                                                   Ret (Some (asjagged
                                                     (aswrapped (asdtype recarray None) (methods_tag m))
                                                     (Some 10)))
                                               | Some am \<Rightarrow> Exc NameError)))))))
           else Val ()))"

text \<open>
  \<^verbatim>\<open>re.match(b"bitset<([1-9][0-9]*)>", name)\<close>: the name starts with \<^verbatim>\<open>bitset<\<close>, a
  numeral without a leading zero and \<^verbatim>\<open>>\<close>; the result is the numeral.
\<close>

definition bitset_match :: "string \<Rightarrow> string option" where
  "bitset_match name =
     (if take 7 name = ''bitset<'' \<and> dim_numeral (takeWhile is_digit (drop 7 name)) \<and>
         (case dropWhile is_digit (drop 7 name) of [] \<Rightarrow> False | e # _ \<Rightarrow> e = CHR ''>'')
      then Some (takeWhile is_digit (drop 7 name))
      else None)"

definition check_bitset :: "string option \<Rightarrow> (unit, 'f interp option) step" where
  "check_bitset name =
     (case name of
        None \<Rightarrow> Val ()
      | Some nm \<Rightarrow>
          (case bitset_match nm of
             None \<Rightarrow> Val ()
           | Some ds \<Rightarrow> Ret (Some (asstlbitset (int_of_digits ds)))))"

text \<open>
  The two chains of comparisons with a name, lines 290 to 313 and 315 to 338 for the
  streamer's type name, repeated in lines 347 to 370 and 372 to 395 for the class name of
  the branch. A chain is the list of its tests in their order, and the first equal name wins.
\<close>

definition vector_table :: "(string \<times> 'f interp) list" where
  "vector_table =
     [(''vector<bool>'', asjagged (asdtype (Prim KBool 1 NotApplicable) None) (Some 10)),
      (''vector<char>'', asjagged (asdtype (Prim KInt 1 NotApplicable) None) (Some 10)),
      (''vector<unsigned char>'', asjagged (asdtype (Prim KUInt 1 NotApplicable) None) (Some 10)),
      (''vector<short>'', asjagged (asdtype (Prim KInt 2 Native) None) (Some 10)),
      (''vector<unsigned short>'', asjagged (asdtype (Prim KUInt 2 Native) None) (Some 10)),
      (''vector<int>'', asjagged (asdtype (Prim KInt 4 Native) None) (Some 10)),
      (''vector<unsigned int>'', asjagged (asdtype (Prim KUInt 4 Native) None) (Some 10)),
      (''vector<long>'', asjagged (asdtype (Prim KInt 8 Native) None) (Some 10)),
      (''vector<unsigned long>'', asjagged (asdtype (Prim KUInt 8 Native) None) (Some 10)),
      (''vector<float>'', asjagged (asdtype (Prim KFloat 4 Native) None) (Some 10)),
      (''vector<double>'', asjagged (asdtype (Prim KFloat 8 Native) None) (Some 10)),
      (''vector<string>'', asobj (STLVector STLString) 6)]"

definition vecvec_table :: "(string \<times> 'f interp) list" where
  "vecvec_table =
     [(''vector<vector<bool> >'',
         asobj (STLVector (STLVector (Content (asdtype (Prim KBool 1 NotApplicable) None)))) 6),
      (''vector<vector<char> >'',
         asobj (STLVector (STLVector (Content (asdtype (Prim KInt 1 NotApplicable) None)))) 6),
      (''vector<vector<unsigned char> >'',
         asobj (STLVector (STLVector (Content (asdtype (Prim KUInt 1 NotApplicable) None)))) 6),
      (''vector<vector<short> >'',
         asobj (STLVector (STLVector (Content (asdtype (Prim KInt 2 Big) None)))) 6),
      (''vector<vector<unsigned short> >'',
         asobj (STLVector (STLVector (Content (asdtype (Prim KUInt 2 Big) None)))) 6),
      (''vector<vector<int> >'',
         asobj (STLVector (STLVector (Content (asdtype (Prim KInt 4 Big) None)))) 6),
      (''vector<vector<unsigned int> >'',
         asobj (STLVector (STLVector (Content (asdtype (Prim KUInt 4 Big) None)))) 6),
      (''vector<vector<long> >'',
         asobj (STLVector (STLVector (Content (asdtype (Prim KInt 8 Big) None)))) 6),
      (''vector<vector<unsigned long> >'',
         asobj (STLVector (STLVector (Content (asdtype (Prim KUInt 8 Big) None)))) 6),
      (''vector<vector<float> >'',
         asobj (STLVector (STLVector (Content (asdtype (Prim KFloat 4 Big) None)))) 6),
      (''vector<vector<double> >'',
         asobj (STLVector (STLVector (Content (asdtype (Prim KFloat 8 Big) None)))) 6),
      (''vector<vector<string> >'', asobj (STLVector (STLVector STLString)) 6)]"

definition check_table ::
  "(string \<times> 'f interp) list \<Rightarrow> string option \<Rightarrow> (unit, 'f interp option) step" where
  "check_table table name =
     (case name of
        None \<Rightarrow> Val ()
      | Some nm \<Rightarrow> (case map_of table nm of None \<Rightarrow> Val () | Some plan \<Rightarrow> Ret (Some plan)))"

text \<open>\<^verbatim>\<open>getattr(branch._streamer, "fTypeName", None)\<close>.\<close>

definition typename_of :: "branch \<Rightarrow> string option" where
  "typename_of b = (case streamer_of b of None \<Rightarrow> None | Some s \<Rightarrow> st_fTypeName s)"

text \<open>Line 344.\<close>

definition check_classname_string :: "branch \<Rightarrow> (unit, 'f interp option) step" where
  "check_classname_string b = (if fClassName b = ''string'' then Ret (Some (asstring 1)) else Val ())"

text \<open>Lines 216 to 395: the checks under \<^verbatim>\<open>TLeafElement\<close>, in their order.\<close>

definition element_checks ::
  "const \<Rightarrow> 'f python \<Rightarrow> branch \<Rightarrow> bool \<Rightarrow> int list \<Rightarrow> leaf \<Rightarrow> (unit, 'f interp option) step list"
  where
  "element_checks c py b swapbytes dims lf =
     [check_basictype c py b swapbytes dims,
      check_basicpointer c py b swapbytes lf,
      check_class b TStreamerString (asstring 1),
      check_class b TStreamerSTLstring (asstring 7),
      check_charstar c b,
      check_stlvector c py b swapbytes,
      check_bitset (typename_of b),
      check_table vector_table (typename_of b),
      check_table vecvec_table (typename_of b),
      check_bitset (Some (fClassName b)),
      check_classname_string b,
      check_table vector_table (Some (fClassName b)),
      check_table vecvec_table (Some (fClassName b))]"

text \<open>Lines 198 to 397.\<close>

definition interpret_except ::
  "const \<Rightarrow> 'f python \<Rightarrow> branch \<Rightarrow> bool \<Rightarrow> int list \<Rightarrow> (unit, 'f interp option) step" where
  "interpret_except c py b swapbytes dims =
     (case fLeaves b of
        [lf] \<Rightarrow>
          first_of
            [check_counter b lf,
             check_object py b,
             check_info py b,
             (if leaf_class lf = TLeafC then Ret (Some (asstring 1))
              else if leaf_class lf = TLeafElement
              then first_of (element_checks c py b swapbytes dims lf)
              else Val ()),
             Ret None]
      | _ \<Rightarrow> Ret None)"

subsection \<open>The function \<^verbatim>\<open>interpret\<close>\<close>

text \<open>Lines 115 to 123: the dims, or the early return for several leaves.\<close>

definition leading_dims :: "branch \<Rightarrow> (int list, 'f interp option) step" where
  "leading_dims b =
     (case fLeaves b of
        [lf] \<Rightarrow> Val (title_dims (fTitle lf))
      | lfs \<Rightarrow> (if list_ex (\<lambda>lf. titlehasdims (fTitle lf)) lfs then Ret None else Val []))"

text \<open>
  The result of a call: an exception that leaves the function, or the value returned,
  which is \<open>None\<close> when the body ends without a \<^verbatim>\<open>return\<close>.
\<close>

definition finish :: "(unit, 'f interp option) step \<Rightarrow> exn + 'f interp option" where
  "finish s = (case s of Val _ \<Rightarrow> Inr None | Ret r \<Rightarrow> Inr r | Exc e \<Rightarrow> Inl e)"

text \<open>
  The function itself. Its name is a keyword of Isabelle, so the constant is called
  \<open>interpret_branch\<close>.
\<close>

definition interpret_branch :: "const \<Rightarrow> 'f python \<Rightarrow> branch \<Rightarrow> bool \<Rightarrow> exn + 'f interp option" where
  "interpret_branch c py b swapbytes =
     (case leading_dims b of
        Ret r \<Rightarrow> Inr r
      | Exc e \<Rightarrow> Inl e
      | Val dims \<Rightarrow>
          (case interpret_try c py b swapbytes dims of
             Exc NotNumerical \<Rightarrow> finish (interpret_except c py b swapbytes dims)
           | s \<Rightarrow> finish s))"

subsection \<open>A concrete setting for the examples\<close>

text \<open>
  The type codes as ROOT numbers them, and a run time with an eight-byte \<^verbatim>\<open>long\<close> whose
  floats are real numbers, whose parser knows four texts, whose numpy accepts the shapes
  that fit a C \<^verbatim>\<open>int\<close>, and whose \<^verbatim>\<open>asdouble32\<close> wants a low below the high and 2 to 32
  bits.
\<close>

definition root_const :: const where
  "root_const =
     \<lparr>kBool = 18, kChar = 1, kUChar = 11, kShort = 2, kUShort = 12, kInt = 3, kBits = 15,
      kUInt = 13, kCounter = 6, kLong = 4, kULong = 14, kLong64 = 16, kULong64 = 17,
      kFloat = 5, kDouble = 8, kDouble32 = 9, kCharStar = 7, kOffsetP = 40, kSTLvector = 1\<rparr>"

definition example_parse :: "string \<Rightarrow> real node option" where
  "example_parse txt =
     (if txt = ''[0, 1.6, 16]''
      then Some (List [Num (PyInt 0), Num (PyFloat 1.6), Num (PyInt 16)] Load)
      else if txt = ''[-pi, pi]''
      then Some (List [UnaryOp USub (Name ''pi'' Load), Name ''pi'' Load] Load)
      else if txt = ''[0, sqrt(2)]''
      then Some (List [Num (PyInt 0), Call (Name ''sqrt'' Load) [Num (PyInt 2)]] Load)
      else if txt = ''[3]''
      then Some (List [Num (PyInt 3)] Load)
      else None)"

definition example_binop :: "operator \<Rightarrow> real \<Rightarrow> real \<Rightarrow> real option" where
  "example_binop op x y =
     (case op of
        Add \<Rightarrow> Some (x + y)
      | Sub \<Rightarrow> Some (x - y)
      | Mult \<Rightarrow> Some (x * y)
      | Div \<Rightarrow> (if y = 0 then None else Some (x / y))
      | _ \<Rightarrow> None)"

definition example_asdouble32_ok ::
  "real pyval \<Rightarrow> real pyval \<Rightarrow> real pyval \<Rightarrow> int list \<Rightarrow> int list \<Rightarrow> bool" where
  "example_asdouble32_ok low high numbits fromdims todims =
     (case (low, high, numbits) of
        (VFloat l, VFloat h, VRaw (PyInt n)) \<Rightarrow> l < h \<and> 2 \<le> n \<and> n \<le> 32
      | _ \<Rightarrow> False)"

definition example_shape_ok :: "dtype \<Rightarrow> int list \<Rightarrow> bool" where
  "example_shape_ok base shape \<longleftrightarrow>
     list_all (\<lambda>n. 0 \<le> n \<and> n < 2147483648) shape \<and>
     itemsize base * foldl (*) 1 shape < 2147483648"

definition example_python :: "real python" where
  "example_python =
     \<lparr>long64 = True, utf8_decode = ascii_decode, numpy_shape_ok = example_shape_ok,
      numpy_fields_ok = (\<lambda>fs. distinct (map fst fs)),
      ast_parse = example_parse, float_of_int = (\<lambda>i. Some (of_int i)),
      float_pi = 3.141592653589793, float_neg = uminus, float_binop = example_binop,
      asdouble32_ok = example_asdouble32_ok\<rparr>"

definition example_leaf :: "leafclass \<Rightarrow> string \<Rightarrow> int \<Rightarrow> nat option \<Rightarrow> leaf" where
  "example_leaf cls title ft counter =
     \<lparr>leaf_id = 1, leaf_class = cls, fName = ''x'', fTitle = title, fIsUnsigned = False,
      fType = ft, fLeafCount = counter\<rparr>"

definition example_streamer :: "streamerclass \<Rightarrow> string \<Rightarrow> string \<Rightarrow> int \<Rightarrow> int \<Rightarrow> streamer" where
  "example_streamer cls title tn ft sz =
     \<lparr>streamer_class = cls, st_fName = ''x'', st_fTitle = title, st_fTypeName = Some tn,
      st_fType = Some ft, st_fSize = Some sz, st_fSTLtype = None, st_fCtype = None\<rparr>"

definition example_branch :: "leaf \<Rightarrow> streamer option \<Rightarrow> string \<Rightarrow> branch" where
  "example_branch lf s cn =
     \<lparr>fLeaves = [lf], fBranches = [], fClassName = cn, streamer_of = s,
      vecstreamer_of = None, classes = Map.empty\<rparr>"

subsection \<open>The dimension parser in the words of the specification\<close>

text \<open>
  A title made of a name and bracketed segments, and the dims the specification describes
  for it: every purely numeric segment, in order, as an integer.
\<close>

definition bracketed :: "string \<Rightarrow> string" where
  "bracketed s = CHR ''['' # s @ '']''"

definition title_of :: "string \<Rightarrow> string list \<Rightarrow> string" where
  "title_of name segs = name @ concat (map bracketed segs)"

definition spec_purely_numeric :: "string \<Rightarrow> bool" where
  "spec_purely_numeric s \<longleftrightarrow> s \<noteq> [] \<and> list_all is_digit s"

definition spec_title_dims :: "string list \<Rightarrow> int list" where
  "spec_title_dims segs = map int_of_digits (filter spec_purely_numeric segs)"

subsection \<open>Reaching a check\<close>

type_synonym 'f check = "(unit, 'f interp option) step"

text \<open>
  The column is not primitive: the \<^verbatim>\<open>try\<close> block ends in \<^verbatim>\<open>_NotNumerical\<close>, because the
  object pointer of lines 127 to 132 is not a registered class, the leaf is not a
  compressed float and \<^verbatim>\<open>_leaf2dtype\<close> refuses it.
\<close>

definition nonprimitive :: "const \<Rightarrow> 'f python \<Rightarrow> branch \<Rightarrow> leaf \<Rightarrow> bool" where
  "nonprimitive c py b lf \<longleftrightarrow>
     try_objectpointer py b = Val () \<and> \<not> double32_leaf c lf \<and>
     leaf2dtype c py lf = Inl NotNumerical"

text \<open>
  The handler reaches the check number \<open>k\<close> (from 0) under \<^verbatim>\<open>TLeafElement\<close>: the leaf is
  a \<^verbatim>\<open>TLeafElement\<close>, and neither the three checks of lines 199 to 210 nor the first \<open>k\<close>
  checks of \<open>element_checks\<close> return or raise.
\<close>

definition reaches :: "nat \<Rightarrow> const \<Rightarrow> 'f python \<Rightarrow> branch \<Rightarrow> bool \<Rightarrow> leaf \<Rightarrow> bool" where
  "reaches k c py b swapbytes lf \<longleftrightarrow>
     leaf_class lf = TLeafElement \<and>
     first_of ([check_counter b lf, check_object py b, check_info py b] @
               take k (element_checks c py b swapbytes (title_dims (fTitle lf)) lf)) = Val ()"

subsection \<open>Example columns\<close>

text \<open>A vector of a class \<^verbatim>\<open>Track\<close> that has a record layout and the given method sets.\<close>

definition example_class :: "methodset option \<Rightarrow> pyclass" where
  "example_class m =
     \<lparr>class_name = ''Track'', recarray_dtype = Some (Fields [(''fX'', Prim KFloat 4 Big)]),
      methods = m\<rparr>"

definition example_vector_branch :: "methodset option \<Rightarrow> branch" where
  "example_vector_branch m =
     \<lparr>fLeaves = [example_leaf TLeafElement ''tracks'' 0 None], fBranches = [],
      fClassName = ''Event'',
      streamer_of = Some \<lparr>streamer_class = TStreamerSTL, st_fName = ''tracks'', st_fTitle = [],
         st_fTypeName = Some ''vector<Track>'', st_fType = Some 500, st_fSize = Some 24,
         st_fSTLtype = Some 1, st_fCtype = Some 61\<rparr>,
      vecstreamer_of = Some \<lparr>vs_pyclass = Some (example_class m), vs_fName = ''Track''\<rparr>,
      classes = Map.empty\<rparr>"

subsection \<open>The range expression in the words of the specification\<close>

text \<open>
  The restricted grammar as the specification lists it: numeric literals, the name
  \<^verbatim>\<open>pi\<close>, unary minus, the four binary operations, and a bracketed list of two or three
  elements. A node uses a construct outside the grammar when \<open>spec_grammar\<close> is false.
\<close>

fun spec_grammar :: "'f node \<Rightarrow> bool" where
  "spec_grammar (Num n) = True"
| "spec_grammar (Name ident ctx) = (ident = ''pi'')"
| "spec_grammar (UnaryOp op e) = (op = USub \<and> spec_grammar e)"
| "spec_grammar (BinOp l op r) =
     ((op = Add \<or> op = Sub \<or> op = Mult \<or> op = Div) \<and> spec_grammar l \<and> spec_grammar r)"
| "spec_grammar (List es ctx) = ((length es = 2 \<or> length es = 3) \<and> list_all spec_grammar es)"
| "spec_grammar (Call f args) = False"
| "spec_grammar OtherNode = False"

subsection \<open>Reading a plan\<close>

text \<open>
  Whether a plan is jagged (an \<^verbatim>\<open>asjagged\<close>, also under \<^verbatim>\<open>aswrapped\<close>), and the dims that
  the call gives to the destination: the shape of the second dtype of \<^verbatim>\<open>asdtype\<close> and the
  last argument of \<^verbatim>\<open>asdouble32\<close>; a call without a destination gives none.
\<close>

fun dtype_dims :: "dtype \<Rightarrow> int list" where
  "dtype_dims (Shaped d sh) = sh"
| "dtype_dims d = []"

fun is_counted :: "'f interp \<Rightarrow> bool" where
  "is_counted (asjagged p skip) = True"
| "is_counted (aswrapped p m) = is_counted p"
| "is_counted p = False"

fun plan_dims :: "'f interp \<Rightarrow> int list" where
  "plan_dims (asdtype fromdtype todtype) =
     (case todtype of None \<Rightarrow> [] | Some d \<Rightarrow> dtype_dims d)"
| "plan_dims (asdouble32 low high numbits fromdims todims) = todims"
| "plan_dims (asjagged p skip) = plan_dims p"
| "plan_dims (aswrapped p m) = plan_dims p"
| "plan_dims p = []"

text \<open>A plan that is jagged and carries dims.\<close>

definition counted_with_dims :: "'f interp \<Rightarrow> bool" where
  "counted_with_dims p \<longleftrightarrow> is_counted p \<and> plan_dims p \<noteq> []"

text \<open>A column whose streamer is a pointer to the registered class \<^verbatim>\<open>Track\<close>.\<close>

definition example_pointer_branch :: "leaf \<Rightarrow> branch" where
  "example_pointer_branch lf =
     \<lparr>fLeaves = [lf], fBranches = [], fClassName = ''Event'',
      streamer_of = Some (example_streamer TStreamerObjectPointer [] ''Track*'' 64 8),
      vecstreamer_of = None,
      classes = [''Track'' \<mapsto> example_class None]\<rparr>"

section \<open>Properties\<close>

subsection \<open>Scanning a title\<close>

lemma itemdims_skip: "list_all not_bracket pre \<Longrightarrow> itemdims (pre @ r) = itemdims r"
  by (induction pre) (auto simp: not_bracket_def)

lemma takeWhile_prefix_all: "list_all P s \<Longrightarrow> \<not> P e \<Longrightarrow> takeWhile P (s @ e # r) = s"
  by (induction s) auto

lemma dropWhile_prefix_all: "list_all P s \<Longrightarrow> \<not> P e \<Longrightarrow> dropWhile P (s @ e # r) = e # r"
  by (induction s) auto

lemma close_not_digit: "\<not> is_digit (CHR '']'')"
  by (simp add: is_digit_def)

lemma closes_mixed:
  "list_all not_bracket s \<Longrightarrow> \<not> list_all is_digit s \<Longrightarrow>
   \<not> closes (dropWhile is_digit (s @ CHR '']'' # r))"
  by (induction s) (auto simp: closes_def not_bracket_def)

lemma itemdims_segment:
  assumes "list_all not_bracket s"
  shows "itemdims (bracketed s @ r) = (if dim_numeral s then s # itemdims r else itemdims r)"
proof (cases "list_all is_digit s")
  case True
  have t: "takeWhile is_digit (s @ CHR '']'' # r) = s"
    using True close_not_digit by (rule takeWhile_prefix_all)
  have d: "dropWhile is_digit (s @ CHR '']'' # r) = CHR '']'' # r"
    using True close_not_digit by (rule dropWhile_prefix_all)
  have skip: "itemdims (s @ CHR '']'' # r) = itemdims r"
    using itemdims_skip [OF assms, of "CHR '']'' # r"] by simp
  show ?thesis
    by (simp add: bracketed_def t d closes_def skip)
next
  case False
  have nc: "\<not> closes (dropWhile is_digit (s @ CHR '']'' # r))"
    using assms False by (rule closes_mixed)
  have nd: "\<not> dim_numeral s"
    using False by (simp add: dim_numeral_def)
  have skip: "itemdims (s @ CHR '']'' # r) = itemdims r"
    using itemdims_skip [OF assms, of "CHR '']'' # r"] by simp
  show ?thesis
    by (simp add: bracketed_def nc nd skip)
qed

lemma itemdims_segments:
  "\<forall>s \<in> set segs. list_all not_bracket s \<Longrightarrow>
   itemdims (concat (map bracketed segs) @ r) = filter dim_numeral segs @ itemdims r"
  by (induction segs) (simp_all add: itemdims_segment)

lemma itemdims_title_of:
  assumes "list_all not_bracket name" and "\<forall>s \<in> set segs. list_all not_bracket s"
  shows "itemdims (title_of name segs) = filter dim_numeral segs"
  using itemdims_skip [OF assms(1), of "concat (map bracketed segs)"]
    itemdims_segments [OF assms(2), of "[]"]
  by (simp add: title_of_def)

lemma titlehasdims_title_of:
  assumes "name \<noteq> []" and "list_all not_bracket name"
    and "segs \<noteq> []" and "\<forall>s \<in> set segs. s \<noteq> [] \<and> list_all not_bracket s"
  shows "titlehasdims (title_of name segs)"
proof -
  obtain s rest where segs: "segs = s # rest"
    using assms(3) by (cases segs) auto
  have s: "s \<noteq> []" "list_all not_bracket s"
    using assms(4) segs by auto
  define r where "r = concat (map bracketed rest)"
  have t: "title_of name segs = name @ CHR ''['' # (s @ CHR '']'' # r)"
    by (simp add: title_of_def segs bracketed_def r_def)
  have nb: "\<not> not_bracket (CHR ''['')" "\<not> not_bracket (CHR '']'')"
    by (simp_all add: not_bracket_def)
  show ?thesis
    unfolding t titlehasdims_def bracket_group_def
    using assms(1) s
    by (simp add: takeWhile_prefix_all [OF assms(2) nb(1)] dropWhile_prefix_all [OF assms(2) nb(1)]
        takeWhile_prefix_all [OF s(2) nb(2)] dropWhile_prefix_all [OF s(2) nb(2)])
qed

lemma digit_value_bounds:
  "is_digit ch \<Longrightarrow> 0 \<le> digit_value ch \<and> (ch \<noteq> CHR ''0'' \<longrightarrow> 1 \<le> digit_value ch)"
  by (auto simp: is_digit_def digit_value_def)

lemma foldl_digits_pos:
  "list_all is_digit ds \<Longrightarrow> 1 \<le> a \<Longrightarrow> 1 \<le> foldl (\<lambda>a ch. 10 * a + digit_value ch) a ds"
proof (induction ds arbitrary: a)
  case Nil
  then show ?case by simp
next
  case (Cons d ds)
  have "0 \<le> digit_value d" using Cons.prems(1) digit_value_bounds by simp
  then have "1 \<le> 10 * a + digit_value d" using Cons.prems(2) by arith
  then show ?case using Cons by simp
qed

lemma int_of_digits_pos:
  assumes "dim_numeral ds"
  shows "0 < int_of_digits ds"
proof -
  obtain d rest where ds: "ds = d # rest"
    using assms by (cases ds) (auto simp: dim_numeral_def)
  have "1 \<le> digit_value d"
    using assms digit_value_bounds [of d] by (simp add: ds dim_numeral_def)
  moreover have "list_all is_digit rest"
    using assms by (simp add: ds dim_numeral_def)
  ultimately have "1 \<le> foldl (\<lambda>a ch. 10 * a + digit_value ch) (digit_value d) rest"
    using foldl_digits_pos by blast
  then show ?thesis by (simp add: int_of_digits_def ds)
qed

lemmas title_eval =
  title_dims_def titlehasdims_def bracket_group_def not_bracket_def is_digit_def
  dim_numeral_def closes_def int_of_digits_def digit_value_def

subsection \<open>C7: the dimension parser\<close>

text \<open>
  C7, as the specification states it, fails: a purely numeric segment with a leading zero
  is not extracted. The title \<^verbatim>\<open>name[2][03]\<close> matches the pattern and its segments
  \<^verbatim>\<open>2\<close> and \<^verbatim>\<open>03\<close> are both purely numeric, so the specification gives the dims
  \<open>(2, 3)\<close>; the function gives \<open>(2,)\<close>.
\<close>

theorem title_dims_leading_zero:
  "title_of ''name'' [''2'', ''03''] = ''name[2][03]'' \<and>
   titlehasdims ''name[2][03]'' \<and>
   title_dims ''name[2][03]'' = [2] \<and>
   spec_title_dims [''2'', ''03''] = [2, 3]"
  by (simp add: title_of_def bracketed_def spec_title_dims_def spec_purely_numeric_def title_eval)

text \<open>
  C7, amended. The titles \<^verbatim>\<open>name[2][3]\<close>, \<^verbatim>\<open>name[n][3]\<close> and \<^verbatim>\<open>name\<close> give the dims
  \<open>(2, 3)\<close>, \<open>(3,)\<close> and \<open>()\<close>. For a title made of a non-empty bracket-free name and one
  or more non-empty bracket-free segments in brackets, the pattern matches and the dims are,
  in order, the values of the segments that are decimal numerals with a first digit other
  than zero; every other segment is skipped, and every dim is positive. The parser is a
  total function, so it has no failure.
\<close>

theorem title_dims_numerals:
  assumes "name \<noteq> []" and "list_all not_bracket name"
    and "segs \<noteq> []" and "\<forall>s \<in> set segs. s \<noteq> [] \<and> list_all not_bracket s"
  shows "title_dims ''name[2][3]'' = [2, 3] \<and>
         title_dims ''name[n][3]'' = [3] \<and>
         title_dims ''name'' = [] \<and>
         titlehasdims (title_of name segs) \<and>
         title_dims (title_of name segs) = map int_of_digits (filter dim_numeral segs) \<and>
         list_all (\<lambda>d. 0 < d) (title_dims (title_of name segs))"
proof -
  have m: "titlehasdims (title_of name segs)"
    using assms by (rule titlehasdims_title_of)
  have "\<forall>s \<in> set segs. list_all not_bracket s"
    using assms(4) by simp
  then have i: "itemdims (title_of name segs) = filter dim_numeral segs"
    using assms(2) itemdims_title_of by blast
  have d: "title_dims (title_of name segs) = map int_of_digits (filter dim_numeral segs)"
    by (simp add: title_dims_def m i)
  have p: "list_all (\<lambda>d. 0 < d) (title_dims (title_of name segs))"
    unfolding d by (simp add: list_all_iff int_of_digits_pos)
  have e1: "title_dims ''name[2][3]'' = [2, 3]" by (simp add: title_eval)
  have e2: "title_dims ''name[n][3]'' = [3]" by (simp add: title_eval)
  have e3: "title_dims ''name'' = []" by (simp add: title_eval)
  show ?thesis using m d p e1 e2 e3 by simp
qed

theorem title_dims_numerals_witness:
  "title_of ''px'' [''n'', ''12'', ''0''] = ''px[n][12][0]'' \<and>
   titlehasdims ''px[n][12][0]'' \<and>
   title_dims ''px[n][12][0]'' = [12]"
proof -
  have a: "''px'' \<noteq> []" "list_all not_bracket ''px''" "[''n'', ''12'', ''0''] \<noteq> []"
    "\<forall>s \<in> set [''n'', ''12'', ''0'']. s \<noteq> [] \<and> list_all not_bracket s"
    by (simp_all add: not_bracket_def)
  have t: "title_of ''px'' [''n'', ''12'', ''0''] = ''px[n][12][0]''"
    by (simp add: title_of_def bracketed_def)
  show ?thesis
    using title_dims_numerals [OF a]
    by (simp add: t dim_numeral_def is_digit_def int_of_digits_def digit_value_def)
qed

subsection \<open>The path through the function\<close>

lemma interpret_single:
  "fLeaves b = [lf] \<Longrightarrow>
   interpret_branch c py b sw =
     (case try_single c py b sw (title_dims (fTitle lf)) lf of
        Exc NotNumerical \<Rightarrow> finish (interpret_except c py b sw (title_dims (fTitle lf)))
      | s \<Rightarrow> finish s)"
  by (simp add: interpret_branch_def leading_dims_def interpret_try_def)

lemma interpret_nonprimitive:
  assumes "fLeaves b = [lf]" and "nonprimitive c py b lf"
  shows "interpret_branch c py b sw = finish (interpret_except c py b sw (title_dims (fTitle lf)))"
  using assms(2)
  by (simp add: interpret_single [OF assms(1)] nonprimitive_def try_single_def compute_numeric_def)

lemma first_of_append: "first_of ss = Val () \<Longrightarrow> first_of (ss @ ts) = first_of ts"
  by (induction ss) (auto split: step.splits)

lemma first_of_append_Val:
  "first_of (xs @ ys) = Val () \<Longrightarrow> first_of xs = Val () \<and> first_of ys = Val ()"
  by (induction xs) (auto split: step.splits)

lemma first_of_end: "first_of [first_of xs, Ret r] = first_of (xs @ [Ret r])"
  by (induction xs) (auto split: step.splits)

lemma except_reaches:
  assumes "fLeaves b = [lf]" and "reaches k c py b sw lf"
  shows "interpret_except c py b sw (title_dims (fTitle lf)) =
         first_of (drop k (element_checks c py b sw (title_dims (fTitle lf)) lf) @ [Ret None])"
proof -
  let ?e = "element_checks c py b sw (title_dims (fTitle lf)) lf"
  let ?p = "[check_counter b lf, check_object py b, check_info py b]"
  have cls: "leaf_class lf = TLeafElement"
    using assms(2) by (simp add: reaches_def)
  have f: "first_of (?p @ take k ?e) = Val ()"
    using assms(2) by (simp add: reaches_def)
  note p = first_of_append_Val [OF f, THEN conjunct1]
  note t = first_of_append_Val [OF f, THEN conjunct2]
  have "interpret_except c py b sw (title_dims (fTitle lf)) = first_of (?p @ [first_of ?e, Ret None])"
    by (simp add: interpret_except_def assms(1) cls)
  also have "\<dots> = first_of [first_of ?e, Ret None]"
    using p by (rule first_of_append)
  also have "\<dots> = first_of (?e @ [Ret None])"
    by (rule first_of_end)
  also have "\<dots> = first_of (take k ?e @ (drop k ?e @ [Ret None]))"
    by (simp only: append_assoc [symmetric] append_take_drop_id)
  also have "\<dots> = first_of (drop k ?e @ [Ret None])"
    using t by (rule first_of_append)
  finally show ?thesis .
qed

lemma interpret_reaches:
  assumes "fLeaves b = [lf]" and "nonprimitive c py b lf" and "reaches k c py b sw lf"
  shows "interpret_branch c py b sw =
         finish (first_of (drop k (element_checks c py b sw (title_dims (fTitle lf)) lf) @ [Ret None]))"
  by (simp add: interpret_nonprimitive [OF assms(1,2)] except_reaches [OF assms(1,3)])

lemmas branch_eval =
  interpret_branch_def leading_dims_def interpret_try_def try_single_def try_objectpointer_def
  double32_leaf_def compute_numeric_def compute_double32_def leaf2dtype_def ftype2dtype_def
  interpret_except_def element_checks_def check_counter_def check_object_def check_info_def
  check_basictype_def check_basicpointer_def check_class_def check_charstar_def
  check_stlvector_def check_bitset_def check_table_def check_classname_string_def
  typename_of_def bitset_match_def finish_def strip_star_def nonprimitive_def reaches_def
  count_wrapped_def shaped_def fields_dtype_def ascii_decode_def leaves_dtype_def
  counts_children_def long_itemsize_def example_shape_ok_def example_asdouble32_ok_def Let_def
  root_const_def example_python_def example_leaf_def example_streamer_def example_branch_def

subsection \<open>C3: a vector of a class with a record layout\<close>

text \<open>
  The three branches of lines 278 to 283, for a vector whose element type is not numeric
  and whose class has a record layout: without a method set the plan is jagged with skip
  10, with a method set that has no array methods the scalar plan is wrapped, and with
  array methods the function raises.
\<close>

lemma stlvector_record_layout:
  assumes "fLeaves b = [lf]" and "nonprimitive c py b lf" and "reaches 5 c py b sw lf"
    and "streamer_of b = Some s" and "st_fSTLtype s = Some (kSTLvector c)"
    and "st_fCtype s = Some ct" and "ftype2dtype c py ct = Inl e"
    and "vecstreamer_of b = Some vs" and "vs_pyclass vs = Some cl"
    and "recarray_dtype cl = Some recarray"
  shows "interpret_branch c py b sw =
           (case methods cl of
              None \<Rightarrow> Inr (Some (asjagged (asdtype recarray None) (Some 10)))
            | Some m \<Rightarrow>
                (case arraymethods m of
                   None \<Rightarrow> Inr (Some (asjagged (aswrapped (asdtype recarray None) (methods_tag m))
                                         (Some 10)))
                 | Some am \<Rightarrow> Inl NameError))"
proof -
  have "check_stlvector c py b sw =
          (case methods cl of
             None \<Rightarrow> Ret (Some (asjagged (asdtype recarray None) (Some 10)))
           | Some m \<Rightarrow>
               (case arraymethods m of
                  None \<Rightarrow> Ret (Some (asjagged (aswrapped (asdtype recarray None) (methods_tag m))
                                        (Some 10)))
                | Some am \<Rightarrow> Exc NameError))"
    using assms(4-10) by (simp add: check_stlvector_def split: option.splits)
  then show ?thesis
    by (simp add: interpret_reaches [OF assms(1-3)] element_checks_def finish_def
        split: option.splits)
qed

text \<open>
  C3 names a defect of the code. For a vector of a class that has a record layout, a method
  set and array methods, line 283 reads the name \<^verbatim>\<open>streamerclass\<close>, which is written
  \<^verbatim>\<open>streamerClass\<close> everywhere else: the call raises \<^verbatim>\<open>NameError\<close> where the claim has a
  plan in two \<^verbatim>\<open>aswrapped\<close> markers.
\<close>

theorem stlvector_arraymethods_raises:
  "interpret_branch root_const example_python
     (example_vector_branch
        (Some \<lparr>methods_tag = ''TrackMethods'', arraymethods = Some ''TrackArrayMethods''\<rparr>))
     True = Inl NameError"
  by (simp add: branch_eval title_eval example_vector_branch_def example_class_def)

subsection \<open>C8: a vector of vectors of \<^verbatim>\<open>int\<close>\<close>





subsection \<open>C9: bit sets\<close>






subsection \<open>C6 and C10: a basic type with a declared size\<close>

lemma ftype2dtype_prim:
  "ftype2dtype c py ft = Inr fd \<Longrightarrow> \<exists>k n bo. fd = Prim k n bo \<and> 0 < n"
  by (auto simp: ftype2dtype_def long_itemsize_def split: if_splits)

lemma ftype2dtype_itemsize: "ftype2dtype c py ft = Inr fd \<Longrightarrow> itemsize fd \<noteq> 0"
  using ftype2dtype_prim [of c py ft fd] by auto

lemma basictype_path:
  assumes "fLeaves b = [lf]" and "leaf_class lf = TLeafElement" and "\<not> double32_leaf c lf"
    and "leaf2dtype c py lf = Inl NotNumerical" and "\<not> counts_children b lf"
    and "streamer_of b = Some s" and "streamer_class s = TStreamerBasicType"
  shows "interpret_branch c py b sw =
           finish (first_of (element_checks c py b sw (title_dims (fTitle lf)) lf @ [Ret None]))"
proof -
  have n: "nonprimitive c py b lf"
    using assms(3,4,6,7) by (simp add: nonprimitive_def try_objectpointer_def)
  have r: "reaches 0 c py b sw lf"
    using assms(2,5,6,7)
    by (simp add: reaches_def check_counter_def check_object_def check_info_def)
  show ?thesis
    using interpret_reaches [OF assms(1) n r] by simp
qed

lemma basictype_checks:
  assumes "streamer_of b = Some s" and "streamer_class s = TStreamerBasicType"
  shows "check_basicpointer c py b sw lf = Val ()"
    and "check_class b TStreamerString p = Val ()"
    and "check_class b TStreamerSTLstring p = Val ()"
  using assms by (simp_all add: check_basicpointer_def check_class_def)

text \<open>
  C6, as the specification states it, fails: the check of the basic type is under
  \<^verbatim>\<open>TLeafElement\<close> and behind three other checks. The column below is the instance of the
  claim (size 12, a four-byte integer, the title dims \<open>(2, 2)\<close>) with a leaf of the class
  \<^verbatim>\<open>TLeafC\<close>, which is not primitive; the result is \<^verbatim>\<open>asstring(skipbytes=1)\<close>.
\<close>

theorem basictype_string_leaf:
  "leaf2dtype root_const example_python (example_leaf TLeafC ''x[2][2]'' 0 None) =
     Inl NotNumerical \<and>
   title_dims ''x[2][2]'' = [2, 2] \<and>
   interpret_branch root_const example_python
     (example_branch (example_leaf TLeafC ''x[2][2]'' 0 None)
        (Some (example_streamer TStreamerBasicType [] ''int'' 3 12)) ''Event'')
     True = Inr (Some (asstring 1))"
  by (simp add: branch_eval title_eval)

text \<open>
  C6, amended. Let the column have one leaf, a \<^verbatim>\<open>TLeafElement\<close> that is neither primitive
  nor a compressed float, let it not count every child, and let its streamer be a
  \<^verbatim>\<open>TStreamerBasicType\<close> whose type code \<^verbatim>\<open>_ftype2dtype\<close> knows and whose size is a
  multiple of the item size. The source shape is \<open>(quotient,)\<close>; the destination dims are
  the dims of the title when their product is the quotient, and \<open>(quotient,)\<close> otherwise.
  When numpy accepts the two shapes the result is \<^verbatim>\<open>asdtype\<close> of the two shaped dtypes;
  when it refuses one, \<^verbatim>\<open>ValueError\<close> leaves the function. The witness is the instance of
  the claim: size 12, a four-byte integer and the title dims \<open>(2, 2)\<close> give the dims
  \<open>(3,)\<close>.
\<close>

theorem basictype_dims:
  assumes "fLeaves b = [lf]" and "leaf_class lf = TLeafElement" and "\<not> double32_leaf c lf"
    and "leaf2dtype c py lf = Inl NotNumerical" and "\<not> counts_children b lf"
    and "streamer_of b = Some s" and "streamer_class s = TStreamerBasicType"
    and "st_fType s = Some ft" and "ftype2dtype c py ft = Inr fd"
    and "st_fSize s = Some sz" and "sz mod itemsize fd = 0"
  shows "interpret_branch c py b sw =
           (let quotient = sz div itemsize fd;
                todtype = (if sw then newbyteorder Native fd else fd);
                todims = (if foldl (*) 1 (title_dims (fTitle lf)) = quotient
                          then title_dims (fTitle lf) else [quotient])
            in if numpy_shape_ok py fd [quotient] \<and>
                  (todims = [] \<or> numpy_shape_ok py todtype todims)
               then Inr (Some (asdtype (Shaped fd [quotient]) (Some (Shaped todtype todims))))
               else Inl ValueError)"
proof -
  have i: "itemsize fd \<noteq> 0"
    using assms(9) by (rule ftype2dtype_itemsize)
  have "check_basictype c py b sw (title_dims (fTitle lf)) =
           (let quotient = sz div itemsize fd;
                todtype = (if sw then newbyteorder Native fd else fd);
                todims = (if foldl (*) 1 (title_dims (fTitle lf)) = quotient
                          then title_dims (fTitle lf) else [quotient])
            in if numpy_shape_ok py fd [quotient] \<and>
                  (todims = [] \<or> numpy_shape_ok py todtype todims)
               then Ret (Some (asdtype (Shaped fd [quotient]) (Some (Shaped todtype todims))))
               else Exc ValueError)"
    using assms(6-11) i by (auto simp: check_basictype_def Let_def shaped_def)
  then show ?thesis
    by (simp add: basictype_path [OF assms(1-7)] element_checks_def finish_def Let_def)
qed

theorem basictype_dims_witness:
  "title_dims ''x[2][2]'' = [2, 2] \<and>
   interpret_branch root_const example_python
     (example_branch (example_leaf TLeafElement ''x[2][2]'' 23 None)
        (Some (example_streamer TStreamerBasicType [] ''int'' 3 12)) ''Event'')
     True =
     Inr (Some (asdtype (Shaped (Prim KInt 4 Big) [3]) (Some (Shaped (Prim KInt 4 Native) [3]))))"
proof -
  let ?lf = "example_leaf TLeafElement ''x[2][2]'' 23 None"
  let ?s = "example_streamer TStreamerBasicType [] ''int'' 3 12"
  let ?b = "example_branch ?lf (Some ?s) ''Event''"
  have t: "title_dims ''x[2][2]'' = [2, 2]"
    by (simp add: title_eval)
  have l: "fLeaves ?b = [?lf]" and s: "streamer_of ?b = Some ?s"
    by (simp_all add: example_branch_def)
  have e: "leaf_class ?lf = TLeafElement" and d: "\<not> double32_leaf root_const ?lf"
    and n: "leaf2dtype root_const example_python ?lf = Inl NotNumerical"
    by (simp_all add: example_leaf_def double32_leaf_def leaf2dtype_def ftype2dtype_def
        root_const_def)
  have k: "\<not> counts_children ?b ?lf"
    by (simp add: counts_children_def example_branch_def)
  have a: "streamer_class ?s = TStreamerBasicType" "st_fType ?s = Some 3" "st_fSize ?s = Some 12"
    by (simp_all add: example_streamer_def)
  have f: "ftype2dtype root_const example_python 3 = Inr (Prim KInt 4 Big)"
    by (simp add: ftype2dtype_def root_const_def)
  have m: "(12::int) mod itemsize (Prim KInt 4 Big) = 0"
    by simp
  have lt: "fTitle ?lf = ''x[2][2]''"
    by (simp add: example_leaf_def)
  have ok: "numpy_shape_ok example_python (Prim KInt 4 Big) [3]"
    "numpy_shape_ok example_python (Prim KInt 4 Native) [3]"
    by (simp_all add: example_python_def example_shape_ok_def)
  show ?thesis
    using basictype_dims [OF l e d n k s a(1,2) f a(3) m, of True]
    by (simp add: lt t ok Let_def)
qed

text \<open>
  C10, as the specification states it, fails: a size that is not a multiple of the item
  size does not end the resolution. A \<^verbatim>\<open>TStreamerBasicType\<close> with the code of a four-byte
  integer and the size 6 leaves the remainder 2, and with the class name \<^verbatim>\<open>string\<close> the
  column resolves to \<^verbatim>\<open>asstring(skipbytes=1)\<close>.
\<close>

theorem basictype_remainder_string:
  "(6::int) mod itemsize (Prim KInt 4 Big) \<noteq> 0 \<and>
   interpret_branch root_const example_python
     (example_branch (example_leaf TLeafElement ''x'' 23 None)
        (Some (example_streamer TStreamerBasicType [] ''int'' 3 6)) ''string'')
     True = Inr (Some (asstring 1))"
  by (simp add: branch_eval title_eval vector_table_def vecvec_table_def)

text \<open>
  C10, amended. Let the column have one leaf, a \<^verbatim>\<open>TLeafElement\<close> that is neither primitive
  nor a compressed float, let it not count every child, and let its streamer be a
  \<^verbatim>\<open>TStreamerBasicType\<close> whose type code \<^verbatim>\<open>_ftype2dtype\<close> knows and whose size is not a
  multiple of the item size. Then the check of the basic type gives no plan and the function
  goes on: its result is that of the checks that follow (the code of a character pointer,
  the vector of the standard library, and the names of bit sets, vectors and strings in the
  type name and in the class name), and \<^verbatim>\<open>None\<close> when none of them returns.
\<close>

theorem basictype_remainder:
  assumes "fLeaves b = [lf]" and "leaf_class lf = TLeafElement" and "\<not> double32_leaf c lf"
    and "leaf2dtype c py lf = Inl NotNumerical" and "\<not> counts_children b lf"
    and "streamer_of b = Some s" and "streamer_class s = TStreamerBasicType"
    and "st_fType s = Some ft" and "ftype2dtype c py ft = Inr fd"
    and "st_fSize s = Some sz" and "sz mod itemsize fd \<noteq> 0"
  shows "interpret_branch c py b sw =
           finish (first_of
             [check_charstar c b, check_stlvector c py b sw,
              check_bitset (typename_of b),
              check_table vector_table (typename_of b),
              check_table vecvec_table (typename_of b),
              check_bitset (Some (fClassName b)),
              check_classname_string b,
              check_table vector_table (Some (fClassName b)),
              check_table vecvec_table (Some (fClassName b)),
              Ret None])"
proof -
  have i: "itemsize fd \<noteq> 0"
    using assms(9) by (rule ftype2dtype_itemsize)
  have "check_basictype c py b sw (title_dims (fTitle lf)) = Val ()"
    using assms(6-11) i by (simp add: check_basictype_def Let_def)
  then show ?thesis
    by (simp add: basictype_path [OF assms(1-7)] element_checks_def
        basictype_checks [OF assms(6,7)])
qed

theorem basictype_remainder_witness:
  "interpret_branch root_const example_python
     (example_branch (example_leaf TLeafElement ''x'' 23 None)
        (Some (example_streamer TStreamerBasicType [] ''int'' 3 6)) ''Event'')
     True = Inr None"
proof -
  let ?lf = "example_leaf TLeafElement ''x'' 23 None"
  let ?s = "example_streamer TStreamerBasicType [] ''int'' 3 6"
  let ?b = "example_branch ?lf (Some ?s) ''Event''"
  have l: "fLeaves ?b = [?lf]" and s: "streamer_of ?b = Some ?s"
    by (simp_all add: example_branch_def)
  have e: "leaf_class ?lf = TLeafElement" and d: "\<not> double32_leaf root_const ?lf"
    and n: "leaf2dtype root_const example_python ?lf = Inl NotNumerical"
    by (simp_all add: example_leaf_def double32_leaf_def leaf2dtype_def ftype2dtype_def
        root_const_def)
  have k: "\<not> counts_children ?b ?lf"
    by (simp add: counts_children_def example_branch_def)
  have a: "streamer_class ?s = TStreamerBasicType" "st_fType ?s = Some 3" "st_fSize ?s = Some 6"
    by (simp_all add: example_streamer_def)
  have f: "ftype2dtype root_const example_python 3 = Inr (Prim KInt 4 Big)"
    by (simp add: ftype2dtype_def root_const_def)
  have m: "(6::int) mod itemsize (Prim KInt 4 Big) \<noteq> 0"
    by simp
  show ?thesis
    using basictype_remainder [OF l e d n k s a(1,2) f a(3) m, of True]
    by (simp add: branch_eval title_eval vector_table_def vecvec_table_def)
qed

subsection \<open>C1: the primitive path\<close>

lemma try_objectpointer_exn: "try_objectpointer py b = Exc e \<Longrightarrow> e \<noteq> NotNumerical"
  by (auto simp: try_objectpointer_def split: option.splits if_splits)

lemma shaped_cases:
  "shaped py d sh = Inr x \<Longrightarrow> x = Shaped d sh"
  "shaped py d sh = Inl e \<Longrightarrow> e = ValueError"
  by (auto simp: shaped_def split: if_splits)

lemma compute_numeric_prim:
  assumes "leaf2dtype c py lf = Inr d"
  shows "compute_numeric c py lf sw dims =
           (let fromdtype = newbyteorder Big d;
                todtype = (if sw then newbyteorder Native fromdtype else fromdtype)
            in if dims = [] \<or> (numpy_shape_ok py fromdtype dims \<and> numpy_shape_ok py todtype dims)
               then Val (asdtype (Shaped fromdtype dims) (Some (Shaped todtype dims)))
               else Exc ValueError)"
  using assms by (auto simp: compute_numeric_def shaped_def Let_def)

text \<open>
  C1, as the specification states it, fails: lines 127 to 132 look at the streamer before
  the leaf. The leaf below is a \<^verbatim>\<open>TLeafI\<close>, which \<^verbatim>\<open>_leaf2dtype\<close> maps to a four-byte
  integer; the streamer is an object pointer to \<^verbatim>\<open>Track*\<close> and the registry knows
  \<^verbatim>\<open>Track\<close>; the result is \<^verbatim>\<open>asobj\<close> of the class and not the scalar plan.
\<close>

theorem object_pointer_before_primitive:
  "leaf2dtype root_const example_python (example_leaf TLeafI ''x'' 0 None) = Inr (Prim KInt 4 Native) \<and>
   interpret_branch root_const example_python (example_pointer_branch (example_leaf TLeafI ''x'' 0 None)) True
     = Inr (Some (asobj (Class (example_class None)) 0))"
  by (simp add: branch_eval title_eval example_pointer_branch_def)

text \<open>
  C1, amended. Let the column have one leaf that \<^verbatim>\<open>_leaf2dtype\<close> maps to a dtype and
  that is not a compressed float. When the check of the object pointer finds nothing (there
  is no streamer, the streamer is of another class, or its decoded type name without a
  final \<^verbatim>\<open>*\<close> is not in the registry), the function builds the scalar plan from the
  big-endian dtype to the native one (to the big-endian one without \<^verbatim>\<open>swapbytes\<close>), both
  with the dims of the title: when the dims are empty or numpy accepts them for both
  dtypes, the result is that plan, in \<^verbatim>\<open>asjagged\<close> when the leaf has a counter; when numpy
  refuses them, \<^verbatim>\<open>ValueError\<close> leaves the function. When the streamer is an object pointer
  whose decoded type name, without a final \<^verbatim>\<open>*\<close>, is in the registry, the result is
  \<^verbatim>\<open>asobj\<close> of that class and the leaf is not looked at.
\<close>

theorem primitive_unless_object_pointer:
  assumes "fLeaves b = [lf]" and "leaf2dtype c py lf = Inr d" and "\<not> double32_leaf c lf"
  shows "(try_objectpointer py b = Val () \<longrightarrow>
            interpret_branch c py b sw =
              (let dims = title_dims (fTitle lf);
                   fromdtype = newbyteorder Big d;
                   todtype = (if sw then newbyteorder Native fromdtype else fromdtype)
               in if dims = [] \<or>
                     (numpy_shape_ok py fromdtype dims \<and> numpy_shape_ok py todtype dims)
                  then Inr (Some (count_wrapped lf
                         (asdtype (Shaped fromdtype dims) (Some (Shaped todtype dims)))))
                  else Inl ValueError)) \<and>
         (\<forall>s tn obj cl. streamer_of b = Some s \<and> streamer_class s = TStreamerObjectPointer \<and>
            st_fTypeName s = Some tn \<and> utf8_decode py tn = Some obj \<and>
            classes b (strip_star obj) = Some cl \<longrightarrow>
            interpret_branch c py b sw = Inr (Some (asobj (Class cl) 0)))"
proof (intro conjI impI allI)
  assume a: "try_objectpointer py b = Val ()"
  show "interpret_branch c py b sw =
              (let dims = title_dims (fTitle lf);
                   fromdtype = newbyteorder Big d;
                   todtype = (if sw then newbyteorder Native fromdtype else fromdtype)
               in if dims = [] \<or>
                     (numpy_shape_ok py fromdtype dims \<and> numpy_shape_ok py todtype dims)
                  then Inr (Some (count_wrapped lf
                         (asdtype (Shaped fromdtype dims) (Some (Shaped todtype dims)))))
                  else Inl ValueError)"
    using a assms(3)
    by (simp add: interpret_single [OF assms(1)] try_single_def
        compute_numeric_prim [OF assms(2)] finish_def Let_def)
next
  fix s tn obj cl
  assume a: "streamer_of b = Some s \<and> streamer_class s = TStreamerObjectPointer \<and>
            st_fTypeName s = Some tn \<and> utf8_decode py tn = Some obj \<and>
            classes b (strip_star obj) = Some cl"
  then have "try_objectpointer py b = Ret (Some (asobj (Class cl) 0))"
    by (simp add: try_objectpointer_def)
  then show "interpret_branch c py b sw = Inr (Some (asobj (Class cl) 0))"
    by (simp add: interpret_single [OF assms(1)] try_single_def finish_def)
qed

theorem primitive_unless_object_pointer_witness:
  "interpret_branch root_const example_python
     (example_branch (example_leaf TLeafI ''x[3]'' 0 None) None ''Event'') True =
     Inr (Some (asdtype (Shaped (Prim KInt 4 Big) [3]) (Some (Shaped (Prim KInt 4 Native) [3])))) \<and>
   interpret_branch root_const example_python
     (example_pointer_branch (example_leaf TLeafI ''x[3]'' 0 None)) True =
     Inr (Some (asobj (Class (example_class None)) 0))"
proof -
  let ?lf = "example_leaf TLeafI ''x[3]'' 0 None"
  let ?b1 = "example_branch ?lf None ''Event''"
  let ?b2 = "example_pointer_branch ?lf"
  let ?s = "example_streamer TStreamerObjectPointer [] ''Track*'' 64 8"
  have l1: "fLeaves ?b1 = [?lf]" and l2: "fLeaves ?b2 = [?lf]"
    by (simp_all add: example_branch_def example_pointer_branch_def)
  have d: "leaf2dtype root_const example_python ?lf = Inr (Prim KInt 4 Native)"
    by (simp add: leaf2dtype_def example_leaf_def)
  have n: "\<not> double32_leaf root_const ?lf"
    by (simp add: double32_leaf_def example_leaf_def)
  have o: "try_objectpointer example_python ?b1 = Val ()"
    by (simp add: try_objectpointer_def example_branch_def)
  have p: "streamer_of ?b2 = Some ?s \<and> streamer_class ?s = TStreamerObjectPointer \<and>
           st_fTypeName ?s = Some ''Track*'' \<and>
           utf8_decode example_python ''Track*'' = Some ''Track*'' \<and>
           classes ?b2 (strip_star ''Track*'') = Some (example_class None)"
    by (simp add: example_pointer_branch_def example_streamer_def strip_star_def
        example_python_def ascii_decode_def)
  have t: "title_dims (fTitle ?lf) = [3]"
    by (simp add: example_leaf_def title_eval)
  have w: "count_wrapped ?lf q = q" for q :: "real interp"
    by (simp add: count_wrapped_def example_leaf_def)
  have ok: "numpy_shape_ok example_python (Prim KInt 4 Big) [3]"
    "numpy_shape_ok example_python (Prim KInt 4 Native) [3]"
    by (simp_all add: example_python_def example_shape_ok_def)
  note r = primitive_unless_object_pointer [OF l1 d n, of True]
  have r1: "interpret_branch root_const example_python ?b1 True =
     Inr (Some (asdtype (Shaped (Prim KInt 4 Big) [3]) (Some (Shaped (Prim KInt 4 Native) [3]))))"
    using r [THEN conjunct1, rule_format, OF o] ok
    by (simp add: t w Let_def)
  have r2: "interpret_branch root_const example_python ?b2 True =
     Inr (Some (asobj (Class (example_class None)) 0))"
    using primitive_unless_object_pointer [OF l2 d n, of True, THEN conjunct2, rule_format, OF p] .
  show ?thesis using r1 r2 by simp
qed

subsection \<open>C2: jagged plans and dims\<close>

lemma single_out:
  assumes "(if double32_leaf c lf then compute_double32 py b dims
            else compute_numeric c py lf sw dims) = Val out"
  shows "\<not> is_counted out \<and> plan_dims out = dims \<and>
         (double32_leaf c lf \<or> (\<exists>d. leaf2dtype c py lf = Inr d))"
proof (cases "double32_leaf c lf")
  case True
  then have "compute_double32 py b dims = Val out" using assms by simp
  then have "\<not> is_counted out \<and> plan_dims out = dims"
    by (auto simp: compute_double32_def shaped_def
        split: option.splits if_splits pyval.splits list.splits)
  then show ?thesis using True by simp
next
  case False
  then have v: "compute_numeric c py lf sw dims = Val out" using assms by simp
  then obtain d where d: "leaf2dtype c py lf = Inr d"
    by (cases "leaf2dtype c py lf") (auto simp: compute_numeric_def)
  have "\<not> is_counted out \<and> plan_dims out = dims"
    using v by (auto simp: compute_numeric_prim [OF d] Let_def split: if_splits)
  then show ?thesis using d by blast
qed

lemma single_ret:
  assumes "(if double32_leaf c lf then compute_double32 py b dims
            else compute_numeric c py lf sw dims) = Ret r"
  shows "r = None"
proof (cases "double32_leaf c lf")
  case True
  then have "compute_double32 py b dims = Ret r" using assms by simp
  then show ?thesis
    by (auto simp: compute_double32_def shaped_def
        split: option.splits if_splits pyval.splits list.splits sum.splits)
next
  case False
  then have "compute_numeric c py lf sw dims = Ret r" using assms by simp
  then show ?thesis
    by (auto simp: compute_numeric_def shaped_def Let_def split: sum.splits if_splits)
qed

lemma try_single_plan:
  assumes "try_single c py b sw dims lf = Ret (Some p)"
  shows "(try_objectpointer py b \<noteq> Val () \<and> \<not> is_counted p) \<or>
         (try_objectpointer py b = Val () \<and>
          (\<exists>out. p = count_wrapped lf out \<and> \<not> is_counted out \<and> plan_dims out = dims) \<and>
          (double32_leaf c lf \<or> (\<exists>d. leaf2dtype c py lf = Inr d)))"
proof (cases "try_objectpointer py b")
  case (Val u)
  then obtain out where o: "(if double32_leaf c lf then compute_double32 py b dims
            else compute_numeric c py lf sw dims) = Val out" and p: "p = count_wrapped lf out"
    using assms single_ret [of c lf py b dims sw]
    by (auto simp: try_single_def split: step.splits)
  show ?thesis using single_out [OF o] p Val by auto
next
  case (Ret r)
  then have "\<not> is_counted p"
    using assms by (auto simp: try_single_def try_objectpointer_def split: option.splits if_splits)
  then show ?thesis using Ret by simp
next
  case (Exc e)
  then show ?thesis using assms by (simp add: try_single_def)
qed

lemma try_single_not_handler:
  assumes "try_objectpointer py b = Val ()"
    and "double32_leaf c lf \<or> (\<exists>d. leaf2dtype c py lf = Inr d)"
  shows "try_single c py b sw dims lf \<noteq> Exc NotNumerical"
proof (cases "double32_leaf c lf")
  case True
  have "compute_double32 py b dims \<noteq> Exc NotNumerical"
    by (auto simp: compute_double32_def shaped_def
        split: option.splits if_splits pyval.splits list.splits)
  then show ?thesis using True assms(1) by (auto simp: try_single_def split: step.splits)
next
  case False
  then obtain d where d: "leaf2dtype c py lf = Inr d" using assms(2) by blast
  have "compute_numeric c py lf sw dims \<noteq> Exc NotNumerical"
    by (auto simp: compute_numeric_prim [OF d] Let_def)
  then show ?thesis using False assms(1) by (auto simp: try_single_def split: step.splits)
qed

lemma first_of_plan:
  assumes "first_of ss = Ret (Some p)" and "\<forall>s \<in> set ss. s = Ret (Some p) \<longrightarrow> Q"
  shows Q
  using assms by (induction ss) (auto split: step.splits)

lemma ftype2dtype_dims:
  "ftype2dtype c py ft = Inr fd \<Longrightarrow> dtype_dims fd = [] \<and> dtype_dims (newbyteorder bo fd) = []"
  by (auto simp: ftype2dtype_def split: if_splits byteorder.splits)

lemma table_plans:
  "map_of vector_table nm = Some p \<Longrightarrow> plan_dims p = []"
  "map_of vecvec_table nm = Some p \<Longrightarrow> \<not> is_counted p"
  by (auto simp: vector_table_def vecvec_table_def split: if_splits)

lemma element_checks_exclusive:
  assumes "s \<in> set (element_checks c py b sw dims lf)" and "s = Ret (Some p)"
  shows "\<not> counted_with_dims p"
proof -
  consider "check_basictype c py b sw dims = Ret (Some p)"
    | "check_basicpointer c py b sw lf = Ret (Some p)"
    | "check_class b TStreamerString (asstring 1) = Ret (Some p)"
    | "check_class b TStreamerSTLstring (asstring 7) = Ret (Some p)"
    | "check_charstar c b = Ret (Some p)"
    | "check_stlvector c py b sw = Ret (Some p)"
    | nm where "check_bitset nm = Ret (Some p)"
    | nm where "check_table vector_table nm = Ret (Some p)"
    | nm where "check_table vecvec_table nm = Ret (Some p)"
    | "check_classname_string b = Ret (Some p)"
    using assms by (auto simp: element_checks_def)
  then show ?thesis
  proof cases
    case 1
    then have "\<not> is_counted p"
      by (auto simp: check_basictype_def Let_def shaped_def
          split: option.splits if_splits sum.splits)
    then show ?thesis by (simp add: counted_with_dims_def)
  next
    case 2
    then have "plan_dims p = []"
      by (auto simp: check_basicpointer_def Let_def ftype2dtype_dims
          split: option.splits if_splits sum.splits)
    then show ?thesis by (simp add: counted_with_dims_def)
  next
    case 3
    then show ?thesis
      by (auto simp: check_class_def counted_with_dims_def split: option.splits if_splits)
  next
    case 4
    then show ?thesis
      by (auto simp: check_class_def counted_with_dims_def split: option.splits if_splits)
  next
    case 5
    then show ?thesis
      by (auto simp: check_charstar_def counted_with_dims_def split: option.splits if_splits)
  next
    case 6
    then have "plan_dims p = []"
      by (auto simp: check_stlvector_def ftype2dtype_dims
          split: option.splits if_splits sum.splits)
    then show ?thesis by (simp add: counted_with_dims_def)
  next
    case 7
    then show ?thesis
      by (auto simp: check_bitset_def counted_with_dims_def split: option.splits)
  next
    case 8
    then show ?thesis
      by (auto simp: check_table_def counted_with_dims_def table_plans split: option.splits)
  next
    case 9
    then show ?thesis
      by (auto simp: check_table_def counted_with_dims_def table_plans split: option.splits)
  next
    case 10
    then show ?thesis
      by (auto simp: check_classname_string_def counted_with_dims_def split: if_splits)
  qed
qed

lemma handler_exclusive:
  assumes "interpret_except c py b sw dims = Ret (Some p)"
  shows "\<not> counted_with_dims p"
proof (cases "\<exists>lf. fLeaves b = [lf]")
  case False
  then have "interpret_except c py b sw dims = Ret None"
    by (auto simp: interpret_except_def split: list.splits)
  then show ?thesis using assms by simp
next
  case True
  then obtain lf where lf: "fLeaves b = [lf]" by blast
  let ?e = "if leaf_class lf = TLeafC then Ret (Some (asstring 1))
            else if leaf_class lf = TLeafElement
            then first_of (element_checks c py b sw dims lf) else Val ()"
  have f: "first_of [check_counter b lf, check_object py b, check_info py b, ?e, Ret None] =
           Ret (Some p)"
    using assms by (simp add: interpret_except_def lf)
  show ?thesis
  proof (rule first_of_plan [OF f], intro ballI impI)
    fix s
    assume s: "s \<in> set [check_counter b lf, check_object py b, check_info py b, ?e, Ret None]"
      and r: "s = Ret (Some p)"
    consider "check_counter b lf = Ret (Some p)" | "check_object py b = Ret (Some p)"
      | "check_info py b = Ret (Some p)" | "?e = Ret (Some p)"
      using s r by auto
    then show "\<not> counted_with_dims p"
    proof cases
      case 1
      then show ?thesis
        by (auto simp: check_counter_def counted_with_dims_def split: if_splits)
    next
      case 2
      then show ?thesis
        by (auto simp: check_object_def counted_with_dims_def split: option.splits if_splits)
    next
      case 3
      then show ?thesis
        by (auto simp: check_info_def counted_with_dims_def split: option.splits if_splits)
    next
      case 4
      show ?thesis
      proof (cases "leaf_class lf = TLeafC")
        case True
        then show ?thesis using 4 by (auto simp: counted_with_dims_def)
      next
        case False
        then have e: "first_of (element_checks c py b sw dims lf) = Ret (Some p)"
          using 4 by (auto split: if_splits)
        show ?thesis
          by (rule first_of_plan [OF e]) (auto dest: element_checks_exclusive)
      qed
    qed
  qed
qed

lemma multi_exclusive:
  assumes "try_multi c py b sw dims = Ret (Some p)"
  shows "\<not> is_counted p"
  using assms
  by (auto simp: try_multi_def shaped_def split: sum.splits if_splits)

text \<open>
  C2, as the specification states it, fails: a plan can be jagged and carry dims. The leaf
  below has the title \<^verbatim>\<open>x[n][3]\<close> and a counter leaf; the plan is \<^verbatim>\<open>asjagged\<close> of a scalar
  plan with the dims \<open>(3,)\<close>.
\<close>

theorem counted_and_dims:
  "interpret_branch root_const example_python
     (example_branch (example_leaf TLeafI ''x[n][3]'' 0 (Some 7)) None ''Event'') True =
     Inr (Some (asjagged (asdtype (Shaped (Prim KInt 4 Big) [3]) (Some (Shaped (Prim KInt 4 Native) [3]))) None)) \<and>
   is_counted (asjagged (asdtype (Shaped (Prim KInt 4 Big) [3]) (Some (Shaped (Prim KInt 4 Native) [3]))) None :: real interp) \<and>
   plan_dims (asjagged (asdtype (Shaped (Prim KInt 4 Big) [3]) (Some (Shaped (Prim KInt 4 Native) [3]))) None :: real interp) = [3]"
  by (simp add: branch_eval title_eval)

text \<open>
  C2, amended. For every column and every plan that the function returns: the plan is
  jagged and carries dims only when the column has one leaf, that leaf has a counter leaf
  and is primitive or a compressed float, and the dims are those of its title; the plans of
  the object pointer, of several leaves and of the handler of \<^verbatim>\<open>_NotNumerical\<close> are never
  both. When the column has one leaf that is primitive or a compressed float and the check
  of the object pointer finds nothing, the plan is jagged exactly when the leaf has a
  counter leaf, and it carries the dims of the title in both cases.
\<close>

theorem counted_with_title_dims:
  assumes "interpret_branch c py b sw = Inr (Some p)"
  shows "(counted_with_dims p \<longrightarrow>
            (\<exists>lf. fLeaves b = [lf] \<and> fLeafCount lf \<noteq> None \<and>
                  plan_dims p = title_dims (fTitle lf) \<and>
                  (double32_leaf c lf \<or> (\<exists>d. leaf2dtype c py lf = Inr d)))) \<and>
         (\<forall>lf. fLeaves b = [lf] \<and> try_objectpointer py b = Val () \<and>
               (double32_leaf c lf \<or> (\<exists>d. leaf2dtype c py lf = Inr d)) \<longrightarrow>
               (is_counted p \<longleftrightarrow> fLeafCount lf \<noteq> None) \<and>
               plan_dims p = title_dims (fTitle lf))"
proof (cases "fLeaves b")
  case Nil
  then have "interpret_branch c py b sw = Inr None"
    by (simp add: interpret_branch_def leading_dims_def interpret_try_def finish_def)
  then show ?thesis using assms by simp
next
  case (Cons lf rest)
  show ?thesis
  proof (cases rest)
    case Nil
    then have l: "fLeaves b = [lf]" using Cons by simp
    let ?d = "title_dims (fTitle lf)"
    note i = assms [unfolded interpret_single [OF l]]
    show ?thesis
    proof (cases "try_single c py b sw ?d lf = Exc NotNumerical")
      case True
      then have h: "interpret_except c py b sw ?d = Ret (Some p)"
        using i by (auto simp: finish_def split: step.splits)
      have 1: "\<not> counted_with_dims p" using h by (rule handler_exclusive)
      have 2: "\<not> (try_objectpointer py b = Val () \<and>
                  (double32_leaf c lf \<or> (\<exists>d. leaf2dtype c py lf = Inr d)))"
        using True try_single_not_handler [of py b c lf sw ?d] by blast
      show ?thesis using 1 2 l by auto
    next
      case False
      then have t: "try_single c py b sw ?d lf = Ret (Some p)"
        using i by (auto simp: finish_def split: step.splits exn.splits)
      from try_single_plan [OF t] show ?thesis
      proof
        assume a: "try_objectpointer py b \<noteq> Val () \<and> \<not> is_counted p"
        then show ?thesis using l by (auto simp: counted_with_dims_def)
      next
        assume a: "try_objectpointer py b = Val () \<and>
          (\<exists>out. p = count_wrapped lf out \<and> \<not> is_counted out \<and> plan_dims out = ?d) \<and>
          (double32_leaf c lf \<or> (\<exists>d. leaf2dtype c py lf = Inr d))"
        then obtain out where o: "p = count_wrapped lf out" "\<not> is_counted out"
          "plan_dims out = ?d" by blast
        have c: "is_counted p \<longleftrightarrow> fLeafCount lf \<noteq> None" and d: "plan_dims p = ?d"
          using o by (auto simp: count_wrapped_def)
        show ?thesis using a c d l by (auto simp: counted_with_dims_def)
      qed
    qed
  next
    case (Cons lf2 rest2)
    then have l: "fLeaves b = lf # lf2 # rest2" using \<open>fLeaves b = lf # rest\<close> by simp
    have e: "interpret_except c py b sw dims = Ret None" for dims
      by (simp add: interpret_except_def l)
    have "\<exists>dims. try_multi c py b sw dims = Ret (Some p)"
      using assms
      by (auto simp: interpret_branch_def leading_dims_def interpret_try_def l e finish_def
          split: step.splits exn.splits if_splits)
    then have "\<not> is_counted p" using multi_exclusive by blast
    then show ?thesis using l by (auto simp: counted_with_dims_def)
  qed
qed

theorem counted_with_title_dims_witness:
  "counted_with_dims
     (asjagged (asdtype (Shaped (Prim KFloat 4 Big) [2, 5])
        (Some (Shaped (Prim KFloat 4 Big) [2, 5]))) None :: real interp) \<and>
   (\<exists>lf. fLeaves (example_branch (example_leaf TLeafF ''x[n][2][5]'' 0 (Some 7)) None ''Event'')
           = [lf] \<and>
         fLeafCount lf \<noteq> None \<and> title_dims (fTitle lf) = [2, 5])"
proof -
  let ?lf = "example_leaf TLeafF ''x[n][2][5]'' 0 (Some 7)"
  let ?b = "example_branch ?lf None ''Event''"
  let ?p = "asjagged (asdtype (Shaped (Prim KFloat 4 Big) [2, 5])
        (Some (Shaped (Prim KFloat 4 Big) [2, 5]))) None :: real interp"
  have h: "interpret_branch root_const example_python ?b False = Inr (Some ?p)"
    by (simp add: branch_eval title_eval)
  have c: "counted_with_dims ?p"
    by (simp add: counted_with_dims_def)
  have d: "plan_dims ?p = [2, 5]"
    by simp
  have l: "fLeaves ?b = [?lf] \<and> try_objectpointer example_python ?b = Val () \<and>
           (double32_leaf root_const ?lf \<or>
            (\<exists>d. leaf2dtype root_const example_python ?lf = Inr d))"
    by (simp add: example_branch_def try_objectpointer_def leaf2dtype_def example_leaf_def)
  from counted_with_title_dims [OF h, THEN conjunct2, rule_format, OF l]
  have t: "(is_counted ?p \<longleftrightarrow> fLeafCount ?lf \<noteq> None) \<and> plan_dims ?p = title_dims (fTitle ?lf)" .
  from counted_with_title_dims [OF h, THEN conjunct1, rule_format, OF c]
  obtain lf where "fLeaves ?b = [lf]" "fLeafCount lf \<noteq> None"
    "plan_dims ?p = title_dims (fTitle lf)"
    by blast
  then show ?thesis using c d t by auto
qed

subsection \<open>C4 and C5: compressed floats\<close>

lemma transform_within_grammar: "transform py n = Some t \<Longrightarrow> spec_grammar n"
  by (induction py n arbitrary: t rule: transform.induct)
     (auto split: if_splits option.splits)

text \<open>
  C4, as the specification states it, fails: only the text from the first opening to the
  first closing bracket is read. The title below contains \<^verbatim>\<open>[0, sqrt(2)]\<close>, a bracketed
  expression with a function call, which is outside the grammar; it comes after
  \<^verbatim>\<open>[-pi, pi]\<close>, and the column resolves to a plan.
\<close>

theorem double32_second_bracket:
  "ast_parse example_python ''[0, sqrt(2)]'' =
     Some (List [Num (PyInt 0), Call (Name ''sqrt'' Load) [Num (PyInt 2)]] Load) \<and>
   \<not> spec_grammar (List [Num (PyInt 0), Call (Name ''sqrt'' Load) [Num (PyInt 2)]] Load
                    :: real node) \<and>
   interpret_branch root_const example_python
     (example_branch (example_leaf TLeafElement ''x'' 9 None)
        (Some (example_streamer TStreamerBasicType ''[-pi, pi] [0, sqrt(2)]'' ''Double32_t'' 9 8))
        ''Event'')
     True =
     Inr (Some (asdouble32 (VFloat (- 3.141592653589793)) (VFloat 3.141592653589793)
                  (VRaw (PyInt 32)) [] []))"
  by (simp add: branch_eval title_eval bracket_text_def index_of_def example_parse_def)

text \<open>
  C4, amended. Let the column have one leaf, a \<^verbatim>\<open>TLeafElement\<close> with the type code
  \<^verbatim>\<open>kDouble32\<close>, let the check of the object pointer find nothing, and let the title of the
  streamer have both brackets, so that \<open>txt\<close> is the text from the first opening to the
  first closing bracket. When the parser fails on \<open>txt\<close>, or gives a node that uses a
  construct outside the grammar, the function returns \<^verbatim>\<open>None\<close>: it does not raise and
  does not fall back to the plain float.
\<close>

theorem double32_unsupported_construct:
  assumes "fLeaves b = [lf]" and "double32_leaf c lf"
    and "try_objectpointer py b = Val ()"
    and "streamer_of b = Some s" and "bracket_text (st_fTitle s) = Some txt"
    and "\<forall>n. ast_parse py txt = Some n \<longrightarrow> \<not> spec_grammar n"
  shows "interpret_branch c py b sw = Inr None"
proof -
  have "compute_double32 py b (title_dims (fTitle lf)) = Ret None"
  proof (cases "ast_parse py txt")
    case None
    then show ?thesis
      using assms(4,5) by (simp add: compute_double32_def)
  next
    case (Some n)
    then have "\<not> spec_grammar n"
      using assms(6) by simp
    then have "transform py n = None"
      using transform_within_grammar [of py n] by (cases "transform py n") auto
    then show ?thesis
      using assms(4,5) Some by (simp add: compute_double32_def)
  qed
  then show ?thesis
    using assms(2,3) by (simp add: interpret_single [OF assms(1)] try_single_def finish_def)
qed

theorem double32_unsupported_construct_witness:
  "interpret_branch root_const example_python
     (example_branch (example_leaf TLeafElement ''x'' 9 None)
        (Some (example_streamer TStreamerBasicType ''[0, sqrt(2)]'' ''Double32_t'' 9 8)) ''Event'')
     True = Inr None"
proof -
  let ?lf = "example_leaf TLeafElement ''x'' 9 None"
  let ?s = "example_streamer TStreamerBasicType ''[0, sqrt(2)]'' ''Double32_t'' 9 8"
  let ?b = "example_branch ?lf (Some ?s) ''Event''"
  have l: "fLeaves ?b = [?lf]" and s: "streamer_of ?b = Some ?s"
    by (simp_all add: example_branch_def)
  have d: "double32_leaf root_const ?lf"
    by (simp add: double32_leaf_def example_leaf_def root_const_def)
  have o: "try_objectpointer example_python ?b = Val ()"
    by (simp add: try_objectpointer_def example_branch_def example_streamer_def)
  have t: "bracket_text (st_fTitle ?s) = Some ''[0, sqrt(2)]''"
    by (simp add: bracket_text_def index_of_def example_streamer_def)
  have g: "\<forall>n. ast_parse example_python ''[0, sqrt(2)]'' = Some n \<longrightarrow> \<not> spec_grammar n"
    by (simp add: example_python_def example_parse_def)
  show ?thesis
    using double32_unsupported_construct [OF l d o s t g] .
qed







end
